theory Spec2Isabelle
  imports Main
begin

section \<open>Data model\<close>

text \<open>
  The Prisma \<open>Link\<close> row, restricted to the columns the controllers read: \<open>key\<close>, \<open>url\<close>,
  \<open>password\<close> and \<open>utm\<close> in \<open>ShortenerController.findOne\<close>; \<open>id\<close>, \<open>url\<close>, \<open>key\<close> and
  \<open>userId\<close> in \<open>AnalyticsController.findLink\<close>. Nullable columns are options, the \<open>utm\<close>
  column is a record of strings keyed by strings (an association list, in insertion order), the
  expiry is a time stamp in milliseconds.
\<close>

type_synonym utm_params = "(string \<times> string) list"

record link =
  link_id :: string
  link_key :: string
  link_url :: string
  link_password :: "string option"
  link_utm :: "utm_params option"
  link_userId :: "string option"
  link_expirationTime :: "int option"

text \<open>\<open>IClientDetails\<close> (the \<open>@ClientDetails()\<close> decorator): address and user agent of the caller.\<close>

record client_details =
  cd_ip :: string
  cd_userAgent :: string

text \<open>The object handed to \<open>ShortenerProducer.publish\<close>: the client details, the
  referer header if there is one, and the key and url of the link.\<close>

record click_event =
  ev_ip :: string
  ev_userAgent :: string
  ev_referer :: "string option"
  ev_key :: string
  ev_url :: string

text \<open>\<open>LinkResponse\<close>: the \<open>{url, key}\<close> object that \<open>findOne\<close> returns.\<close>

record link_response =
  res_url :: string
  res_key :: string

text \<open>\<open>UserContext\<close> (\<open>req.user\<close>), with the two fields the controllers read.\<close>

record user_context =
  user_id :: string
  user_verified :: bool

text \<open>\<open>ShortenerDto\<close>: every field but \<open>url\<close> is optional.\<close>

record shortener_dto =
  dto_url :: string
  dto_key :: "string option"
  dto_description :: "string option"
  dto_expirationTime :: "int option"
  dto_password :: "string option"
  dto_utm_ref :: "string option"
  dto_utm_source :: "string option"
  dto_utm_medium :: "string option"
  dto_utm_campaign :: "string option"
  dto_utm_term :: "string option"
  dto_utm_content :: "string option"
  dto_temporary :: "bool option"

text \<open>The exceptions the controllers throw, each with its message.\<close>

datatype http_exception =
    BadRequestException string
  | UnauthorizedException string
  | NotFoundException string

text \<open>How an awaited \<open>publish\<close> promise settles: fulfilled, or rejected with an \<open>Error\<close>
  whose \<open>message\<close> is the string.\<close>

datatype settlement = Fulfilled | Rejected string

text \<open>Rows of the analytics service: one \<open>(day, count)\<close> pair per day for the time
  series; for a grouped query the value of the grouped field, the values of the included
  fields and the count.\<close>

type_synonym clicks_over_time = "(string \<times> nat) list"

record grouped_row =
  row_field :: string
  row_included :: "(string \<times> string) list"
  row_count :: nat

type_synonym include_arg = "(string \<times> bool) list"

record analytics_response =
  an_url :: string
  an_clicksOverTime :: clicks_over_time

record grouped_response =
  gr_url :: string
  gr_data :: "grouped_row list"

subsection \<open>JavaScript truthiness and string conversion\<close>

text \<open>\<open>if (b)\<close> for an optional boolean.\<close>

definition truthy_bool :: "bool option \<Rightarrow> bool" where
  "truthy_bool b = (case b of None \<Rightarrow> False | Some v \<Rightarrow> v)"

text \<open>\<open>`${n}`\<close> for a non-negative integer: its decimal digits.\<close>

definition digit_char :: "nat \<Rightarrow> char" where
  "digit_char d = (''0123456789'' ! (d mod 10))"

function show_nat :: "nat \<Rightarrow> string" where
  "show_nat n = (if n < 10 then [digit_char n] else show_nat (n div 10) @ [digit_char (n mod 10)])"
  by pat_completeness auto
termination
  by (relation "measure id") auto

declare show_nat.simps [simp del]

section \<open>Asynchronous handlers\<close>

text \<open>
  Every controller method is an \<open>async\<close> function: it runs until an \<open>await\<close>, is suspended
  there, and is resumed with the value of the awaited promise once that promise has
  settled. A handler is therefore a tree: \<open>Await_f args k\<close> is \<open>await f(args)\<close> followed
  by the rest of the body \<open>k\<close>, which receives the value; \<open>Return\<close> and \<open>Throw\<close> end the
  handler; the two \<open>Log\<close> nodes are the synchronous calls of the logger.
  \<open>Await_all_f\<close> is \<open>await Promise.all(xs.map(f))\<close>: all calls are started, the handler
  resumes with the list of their values.

  Of the collaborators only \<open>publish\<close> is awaited inside a \<open>try\<close>, so only its rejection is a
  value the handler sees; the other collaborators are represented by the values of their
  fulfilled promises.
\<close>

datatype 'r task =
    Return 'r
  | Throw http_exception
  | Log_error string "'r task"
  | Log_info string "'r task"
  | Await_getLink string "link option \<Rightarrow> 'r task"
  | Await_verifyPassword string string "bool \<Rightarrow> 'r task"
  | Await_publish click_event "settlement \<Rightarrow> 'r task"
  | Await_isSafeUrl string "bool \<Rightarrow> 'r task"
  | Await_all_isSafeUrl "string list" "bool list \<Rightarrow> 'r task"
  | Await_isKeyAvailable string "bool \<Rightarrow> 'r task"
  | Await_hashPassword string "string \<Rightarrow> 'r task"
  | Await_isEligibleToCreateLink string "bool \<Rightarrow> 'r task"
  | Await_createShortenedUrl shortener_dto "string \<Rightarrow> 'r task"
  | Await_createUsersShortenedUrl user_context shortener_dto "string \<Rightarrow> 'r task"
  | Await_all_createUsersShortenedUrl user_context "shortener_dto list" "string list \<Rightarrow> 'r task"
  | Await_findUnique string string "link option \<Rightarrow> 'r task"
  | Await_getClicksOverTime string int "clicks_over_time \<Rightarrow> 'r task"
  | Await_getGroupedByField string string int "include_arg option" "grouped_row list \<Rightarrow> 'r task"

text \<open>
  The collaborators a handler is run against. \<open>link_table\<close> is the table behind
  \<open>prismaService.link\<close>; the other fields are the injected services, each giving the value
  its promise is fulfilled with (for \<open>publish\<close>, how it settles). The services that create
  a link return \<open>{key}\<close>, represented by the key.
\<close>

record services =
  getLink :: "string \<Rightarrow> link option"
  verifyPassword :: "string \<Rightarrow> string \<Rightarrow> bool"
  publish :: "click_event \<Rightarrow> settlement"
  isSafeUrl :: "string \<Rightarrow> bool"
  isKeyAvailable :: "string \<Rightarrow> bool"
  hashPassword :: "string \<Rightarrow> string"
  isEligibleToCreateLink :: "string \<Rightarrow> bool"
  createShortenedUrl :: "shortener_dto \<Rightarrow> string"
  createUsersShortenedUrl :: "user_context \<Rightarrow> shortener_dto \<Rightarrow> string"
  link_table :: "link list"
  getClicksOverTime :: "string \<Rightarrow> int \<Rightarrow> clicks_over_time"
  getGroupedByField :: "string \<Rightarrow> string \<Rightarrow> int \<Rightarrow> include_arg option \<Rightarrow> grouped_row list"

text \<open>
  \<open>prisma.link.findUnique({where: {key, userId}, select: {id, url}})\<close>: the row whose key
  and owner are both the given ones, or \<open>null\<close>.
\<close>

definition findUnique :: "link list \<Rightarrow> string \<Rightarrow> string \<Rightarrow> link option" where
  "findUnique table k uid = find (\<lambda>l. link_key l = k \<and> link_userId l = Some uid) table"

text \<open>What a handler has observed by the time it ends: the calls it awaited, recorded
  where the awaited promise settled and the handler resumed, and the lines it logged.\<close>

datatype call =
    Call_getLink string
  | Call_verifyPassword string string
  | Call_publish click_event
  | Call_isSafeUrl string
  | Call_isKeyAvailable string
  | Call_hashPassword string
  | Call_isEligibleToCreateLink string
  | Call_createShortenedUrl shortener_dto
  | Call_createUsersShortenedUrl user_context shortener_dto
  | Call_findUnique string string
  | Call_getClicksOverTime string int
  | Call_getGroupedByField string string int "include_arg option"

datatype event = Settled call | Logged_error string | Logged_info string

text \<open>Running a handler to its end: what it returns or throws.\<close>

primrec outcome :: "services \<Rightarrow> 'r task \<Rightarrow> http_exception + 'r" where
  "outcome env (Return r) = Inr r"
| "outcome env (Throw e) = Inl e"
| "outcome env (Log_error s t) = outcome env t"
| "outcome env (Log_info s t) = outcome env t"
| "outcome env (Await_getLink k c) = outcome env (c (getLink env k))"
| "outcome env (Await_verifyPassword h p c) = outcome env (c (verifyPassword env h p))"
| "outcome env (Await_publish ev c) = outcome env (c (publish env ev))"
| "outcome env (Await_isSafeUrl u c) = outcome env (c (isSafeUrl env u))"
| "outcome env (Await_all_isSafeUrl us c) = outcome env (c (map (isSafeUrl env) us))"
| "outcome env (Await_isKeyAvailable k c) = outcome env (c (isKeyAvailable env k))"
| "outcome env (Await_hashPassword p c) = outcome env (c (hashPassword env p))"
| "outcome env (Await_isEligibleToCreateLink u c) = outcome env (c (isEligibleToCreateLink env u))"
| "outcome env (Await_createShortenedUrl d c) = outcome env (c (createShortenedUrl env d))"
| "outcome env (Await_createUsersShortenedUrl u d c) =
     outcome env (c (createUsersShortenedUrl env u d))"
| "outcome env (Await_all_createUsersShortenedUrl u ds c) =
     outcome env (c (map (createUsersShortenedUrl env u) ds))"
| "outcome env (Await_findUnique k uid c) = outcome env (c (findUnique (link_table env) k uid))"
| "outcome env (Await_getClicksOverTime i n c) = outcome env (c (getClicksOverTime env i n))"
| "outcome env (Await_getGroupedByField i f n inc c) =
     outcome env (c (getGroupedByField env i f n inc))"

text \<open>The events of the same run, in the order they happen; all of them precede the
  return or throw that ends the handler.\<close>

primrec trace :: "services \<Rightarrow> 'r task \<Rightarrow> event list" where
  "trace env (Return r) = []"
| "trace env (Throw e) = []"
| "trace env (Log_error s t) = Logged_error s # trace env t"
| "trace env (Log_info s t) = Logged_info s # trace env t"
| "trace env (Await_getLink k c) = Settled (Call_getLink k) # trace env (c (getLink env k))"
| "trace env (Await_verifyPassword h p c) =
     Settled (Call_verifyPassword h p) # trace env (c (verifyPassword env h p))"
| "trace env (Await_publish ev c) = Settled (Call_publish ev) # trace env (c (publish env ev))"
| "trace env (Await_isSafeUrl u c) = Settled (Call_isSafeUrl u) # trace env (c (isSafeUrl env u))"
| "trace env (Await_all_isSafeUrl us c) =
     map (\<lambda>u. Settled (Call_isSafeUrl u)) us @ trace env (c (map (isSafeUrl env) us))"
| "trace env (Await_isKeyAvailable k c) =
     Settled (Call_isKeyAvailable k) # trace env (c (isKeyAvailable env k))"
| "trace env (Await_hashPassword p c) =
     Settled (Call_hashPassword p) # trace env (c (hashPassword env p))"
| "trace env (Await_isEligibleToCreateLink u c) =
     Settled (Call_isEligibleToCreateLink u) # trace env (c (isEligibleToCreateLink env u))"
| "trace env (Await_createShortenedUrl d c) =
     Settled (Call_createShortenedUrl d) # trace env (c (createShortenedUrl env d))"
| "trace env (Await_createUsersShortenedUrl u d c) =
     Settled (Call_createUsersShortenedUrl u d) # trace env (c (createUsersShortenedUrl env u d))"
| "trace env (Await_all_createUsersShortenedUrl u ds c) =
     map (\<lambda>d. Settled (Call_createUsersShortenedUrl u d)) ds
       @ trace env (c (map (createUsersShortenedUrl env u) ds))"
| "trace env (Await_findUnique k uid c) =
     Settled (Call_findUnique k uid) # trace env (c (findUnique (link_table env) k uid))"
| "trace env (Await_getClicksOverTime i n c) =
     Settled (Call_getClicksOverTime i n) # trace env (c (getClicksOverTime env i n))"
| "trace env (Await_getGroupedByField i f n inc c) =
     Settled (Call_getGroupedByField i f n inc) # trace env (c (getGroupedByField env i f n inc))"

section \<open>ShortenerController\<close>

subsection \<open>\<open>findOne\<close>: resolving a key\<close>

text \<open>The event that \<open>findOne\<close> publishes for a resolved link:
  \<open>{...clientDetails, referer: req.headers.referer, key: data.key, url: data.url}\<close>.\<close>

definition click_of :: "client_details \<Rightarrow> string option \<Rightarrow> link \<Rightarrow> click_event" where
  "click_of clientDetails referer d =
     \<lparr>ev_ip = cd_ip clientDetails, ev_userAgent = cd_userAgent clientDetails,
      ev_referer = referer, ev_key = link_key d, ev_url = link_url d\<rparr>"

text \<open>
  The tail of \<open>findOne\<close>, reached once the password gate is passed: \<open>await publish(...)\<close>
  inside \<open>try\<close>, the \<open>catch\<close> that logs the error's message, and the \<open>return\<close>.
  \<open>addUtmParams\<close> is the synchronous helper of \<open>@reduced.to/utils\<close>, taken as a parameter.
\<close>

definition findOne_publish ::
  "(string \<Rightarrow> utm_params option \<Rightarrow> string) \<Rightarrow> client_details \<Rightarrow> string option \<Rightarrow> link
     \<Rightarrow> link_response task" where
  "findOne_publish addUtmParams clientDetails referer d =
     Await_publish (click_of clientDetails referer d)
       (\<lambda>s. case s of
          Fulfilled \<Rightarrow>
            Return \<lparr>res_url = addUtmParams (link_url d) (link_utm d), res_key = link_key d\<rparr>
        | Rejected message \<Rightarrow>
            Log_error (''Error while publishing shortened url: '' @ message)
              (Return \<lparr>res_url = addUtmParams (link_url d) (link_utm d), res_key = link_key d\<rparr>))"

text \<open>The \<open>pw\<close> query parameter is optional: \<open>@Query('pw') password = ''\<close>.\<close>

definition password_or_default :: "string option \<Rightarrow> string" where
  "password_or_default pw = (case pw of None \<Rightarrow> [] | Some p \<Rightarrow> p)"

text \<open>The stored password that \<open>findOne\<close> checks: \<open>data.password\<close> when it is truthy, that
  is, neither \<open>null\<close> nor the empty string.\<close>

definition stored_hash :: "link \<Rightarrow> string option" where
  "stored_hash d =
     (case link_password d of None \<Rightarrow> None | Some h \<Rightarrow> if h = [] then None else Some h)"

text \<open>
  \<open>findOne(clientDetails, key, password = '', req)\<close>. Of \<open>req\<close> only
  \<open>req.headers.referer\<close> is read.
  \<open>data.password && (await verifyPassword(data.password, password)) === false\<close> awaits the
  verification only for a truthy stored password.
\<close>

definition findOne ::
  "(string \<Rightarrow> utm_params option \<Rightarrow> string) \<Rightarrow> client_details \<Rightarrow> string \<Rightarrow> string option
     \<Rightarrow> string option \<Rightarrow> link_response task" where
  "findOne addUtmParams clientDetails key pw referer =
     (let password = password_or_default pw in
      Await_getLink key (\<lambda>data.
        case data of
          None \<Rightarrow> Throw (BadRequestException ''Shortened url is wrong or expired'')
        | Some d \<Rightarrow>
            (case stored_hash d of
               None \<Rightarrow> findOne_publish addUtmParams clientDetails referer d
             | Some h \<Rightarrow>
                 Await_verifyPassword h password (\<lambda>ok.
                   if ok = False
                   then Throw (UnauthorizedException ''Incorrect password for this url!'')
                   else findOne_publish addUtmParams clientDetails referer d))))"

text \<open>The password gate of \<open>findOne\<close> as a condition on the stored link.\<close>

definition password_gate_ok :: "services \<Rightarrow> link \<Rightarrow> string option \<Rightarrow> bool" where
  "password_gate_ok env d pw =
     (case stored_hash d of
        None \<Rightarrow> True
      | Some h \<Rightarrow> verifyPassword env h (password_or_default pw))"

subsection \<open>\<open>shortener\<close>: creating one link\<close>

text \<open>
  The body of \<open>shortener\<close> is a sequence of guarded steps, each of which either throws or
  falls through to the next. The steps are given last first, so that each one names the
  step it falls through to.

  Last step: the eligibility check of \<open>usageService\<close>, the log line and
  \<open>createUsersShortenedUrl(user, shortenerDto)\<close>.
\<close>

definition shortener_eligible :: "user_context \<Rightarrow> shortener_dto \<Rightarrow> string task" where
  "shortener_eligible user shortenerDto =
     Await_isEligibleToCreateLink (user_id user) (\<lambda>isEligibleToCreateLink.
       if \<not> isEligibleToCreateLink
       then Throw (BadRequestException ''You have reached your link creation limit'')
       else Log_info (''User '' @ user_id user @ '' is creating a shortened url for ''
                        @ dto_url shortenerDto)
              (Await_createUsersShortenedUrl user shortenerDto Return))"

text \<open>
  \<open>if (!user?.verified) throw ...\<close>, then
  \<open>if (shortenerDto.password) shortenerDto.password = await hashPassword(shortenerDto.password)\<close>.
  \<open>req.user\<close> is absent for an anonymous caller (\<open>OptionalJwtAuthGuard\<close>).
\<close>

definition shortener_verified :: "shortener_dto \<Rightarrow> user_context option \<Rightarrow> string task" where
  "shortener_verified shortenerDto req_user =
     (case req_user of
        None \<Rightarrow> Throw (BadRequestException ''You must be verified in to create a shortened url'')
      | Some user \<Rightarrow>
          if \<not> user_verified user
          then Throw (BadRequestException ''You must be verified in to create a shortened url'')
          else (case dto_password shortenerDto of
                  None \<Rightarrow> shortener_eligible user shortenerDto
                | Some p \<Rightarrow>
                    if p = [] then shortener_eligible user shortenerDto
                    else Await_hashPassword p (\<lambda>hashed.
                      shortener_eligible user (shortenerDto\<lparr>dto_password := Some hashed\<rparr>))))"

text \<open>
  \<open>if (shortenerDto.temporary) { const { password, ...rest } = shortenerDto;
  return createShortenedUrl(rest) }\<close>: \<open>rest\<close> is the request without its password.
\<close>

definition shortener_temporary :: "shortener_dto \<Rightarrow> user_context option \<Rightarrow> string task" where
  "shortener_temporary shortenerDto req_user =
     (if truthy_bool (dto_temporary shortenerDto)
      then Await_createShortenedUrl (shortenerDto\<lparr>dto_password := None\<rparr>) Return
      else shortener_verified shortenerDto req_user)"

text \<open>\<open>if (shortenerDto.key) { if (!(await isKeyAvailable(key))) throw ... }\<close>.\<close>

definition shortener_key :: "shortener_dto \<Rightarrow> user_context option \<Rightarrow> string task" where
  "shortener_key shortenerDto req_user =
     (case dto_key shortenerDto of
        None \<Rightarrow> shortener_temporary shortenerDto req_user
      | Some k \<Rightarrow>
          if k = [] then shortener_temporary shortenerDto req_user
          else Await_isKeyAvailable k (\<lambda>isKeyAvailable.
            if \<not> isKeyAvailable
            then Throw (BadRequestException ''This short link already exists'')
            else shortener_temporary shortenerDto req_user))"

text \<open>
  \<open>shortener(shortenerDto, req)\<close>, from its first step: the safe-URL check, made when
  \<open>configService.getConfig().safeUrl.enable\<close> is set (the flag is the first argument).
\<close>

definition shortener :: "bool \<Rightarrow> shortener_dto \<Rightarrow> user_context option \<Rightarrow> string task" where
  "shortener safeUrl_enable shortenerDto req_user =
     (if safeUrl_enable
      then Await_isSafeUrl (dto_url shortenerDto) (\<lambda>isSafeUrl.
             if \<not> isSafeUrl then Throw (BadRequestException ''This url is not safe to shorten!'')
             else shortener_key shortenerDto req_user)
      else shortener_key shortenerDto req_user)"

subsection \<open>\<open>bulk\<close>: creating many links\<close>

text \<open>The second half of \<open>bulk\<close>: the verified-user check, the log line and
  \<open>Promise.all(shortenerDto.map(dto => createUsersShortenedUrl(user, dto)))\<close>; the result
  is \<open>{keys}\<close>, represented by the list of keys.\<close>

definition bulk_verified :: "shortener_dto list \<Rightarrow> user_context option \<Rightarrow> string list task" where
  "bulk_verified shortenerDto req_user =
     (case req_user of
        None \<Rightarrow> Throw (BadRequestException ''You must be verified in to create a shortened url'')
      | Some user \<Rightarrow>
          if \<not> user_verified user
          then Throw (BadRequestException ''You must be verified in to create a shortened url'')
          else Log_info (''User '' @ user_id user @ '' is creating a bulk-shortened url for ''
                           @ show_nat (length shortenerDto) @ '' urls'')
                 (Await_all_createUsersShortenedUrl user shortenerDto Return))"

text \<open>\<open>bulk(shortenerDto, req)\<close>: with the safe-URL flag set, every url is checked and
  \<open>checks.every(Boolean)\<close> must hold.\<close>

definition bulk :: "bool \<Rightarrow> shortener_dto list \<Rightarrow> user_context option \<Rightarrow> string list task" where
  "bulk safeUrl_enable shortenerDto req_user =
     (if safeUrl_enable
      then Await_all_isSafeUrl (map dto_url shortenerDto) (\<lambda>checks.
             if \<not> list_all (\<lambda>b. b) checks
             then Throw (BadRequestException ''This url is not safe to shorten!'')
             else bulk_verified shortenerDto req_user)
      else bulk_verified shortenerDto req_user)"

subsection \<open>Validation of the requested key\<close>

text \<open>
  The decorators of \<open>ShortenerDto.key\<close>: \<open>@IsOptional() @IsString() @MaxLength(20)
  @MinLength(4)\<close>. An absent key passes; a string passes when its length is between 4 and
  20. No decorator looks at the characters.
\<close>

definition dto_key_valid :: "string option \<Rightarrow> bool" where
  "dto_key_valid key =
     (case key of None \<Rightarrow> True | Some k \<Rightarrow> 4 \<le> length k \<and> length k \<le> 20)"

text \<open>The character class \<open>[a-zA-Z0-9-]\<close>.\<close>

definition key_char :: "char \<Rightarrow> bool" where
  "key_char c =
     (c \<in> set ''abcdefghijklmnopqrstuvwxyzABCDEFGHIJKLMNOPQRSTUVWXYZ0123456789-'')"

text \<open>
  The \<open>key\<close> field of the dashboard's \<open>CreateLinkInputSchema\<close>:
  \<open>z.string().max(20).regex(/^[a-zA-Z0-9-]*$/).optional().refine(...)\<close>, where the
  refinement accepts an absent or empty value and rejects a length below 4.
\<close>

definition schema_key_valid :: "string option \<Rightarrow> bool" where
  "schema_key_valid key =
     (case key of
        None \<Rightarrow> True
      | Some val \<Rightarrow>
          length val \<le> 20 \<and> list_all key_char val
          \<and> (if length val = 0 then True else if length val < 4 then False else True))"

text \<open>The format as the specification words it: 4 to 20 characters, each of
  \<open>[A-Za-z0-9-]\<close>.\<close>

definition key_format_ok :: "string \<Rightarrow> bool" where
  "key_format_ok k = (4 \<le> length k \<and> length k \<le> 20 \<and> list_all key_char k)"

section \<open>AnalyticsController\<close>

text \<open>
  \<open>findLink(key, userId)\<close>: the private helper every per-key query awaits first. It
  throws when \<open>findUnique\<close> yields no row; otherwise the caller continues with the row, of
  which \<open>id\<close> and \<open>url\<close> are selected.
\<close>

definition findLink :: "string \<Rightarrow> string \<Rightarrow> (link \<Rightarrow> 'r task) \<Rightarrow> 'r task" where
  "findLink key userId continue =
     Await_findUnique key userId (\<lambda>link.
       case link of
         None \<Rightarrow> Throw (NotFoundException ''Link not found'')
       | Some l \<Rightarrow> continue l)"

definition getAnalytics :: "string \<Rightarrow> int \<Rightarrow> user_context \<Rightarrow> analytics_response task" where
  "getAnalytics key days user =
     findLink key (user_id user) (\<lambda>link.
       Await_getClicksOverTime (link_id link) days (\<lambda>data.
         Return \<lparr>an_url = link_url link, an_clicksOverTime = data\<rparr>))"

definition getGroupedData ::
  "string \<Rightarrow> string \<Rightarrow> int \<Rightarrow> string \<Rightarrow> include_arg option \<Rightarrow> grouped_response task" where
  "getGroupedData key userId days field include =
     findLink key userId (\<lambda>link.
       Await_getGroupedByField (link_id link) field days include (\<lambda>data.
         Return \<lparr>gr_url = link_url link, gr_data = data\<rparr>))"

definition getDevices :: "string \<Rightarrow> int \<Rightarrow> user_context \<Rightarrow> grouped_response task" where
  "getDevices key days user = getGroupedData key (user_id user) days ''device'' None"

definition getOs :: "string \<Rightarrow> int \<Rightarrow> user_context \<Rightarrow> grouped_response task" where
  "getOs key days user = getGroupedData key (user_id user) days ''os'' None"

definition getBrowsers :: "string \<Rightarrow> int \<Rightarrow> user_context \<Rightarrow> grouped_response task" where
  "getBrowsers key days user = getGroupedData key (user_id user) days ''browser'' None"

definition getCountries :: "string \<Rightarrow> int \<Rightarrow> user_context \<Rightarrow> grouped_response task" where
  "getCountries key days user = getGroupedData key (user_id user) days ''country'' None"

definition getRegions :: "string \<Rightarrow> int \<Rightarrow> user_context \<Rightarrow> grouped_response task" where
  "getRegions key days user = getGroupedData key (user_id user) days ''region'' None"

definition getCities :: "string \<Rightarrow> int \<Rightarrow> user_context \<Rightarrow> grouped_response task" where
  "getCities key days user =
     getGroupedData key (user_id user) days ''city'' (Some [(''country'', True)])"

text \<open>
  The routes of the controller that answer with grouped data, \<open>:key/devices\<close>, \<open>:key/os\<close>,
  \<open>:key/browsers\<close>, \<open>:key/countries\<close>, \<open>:key/regions\<close> and \<open>:key/cities\<close>, and the method
  each is bound to.
\<close>

datatype grouped_route = Devices | Os | Browsers | Countries | Regions | Cities

fun grouped_handler :: "grouped_route \<Rightarrow> string \<Rightarrow> int \<Rightarrow> user_context \<Rightarrow> grouped_response task" where
  "grouped_handler Devices = getDevices"
| "grouped_handler Os = getOs"
| "grouped_handler Browsers = getBrowsers"
| "grouped_handler Countries = getCountries"
| "grouped_handler Regions = getRegions"
| "grouped_handler Cities = getCities"

section \<open>Collaborators described by the specification\<close>

text \<open>Modelled from the spec: \<open>ShortenerService.getLink\<close> is not among the sources. Section 4.2
  of the specification: resolution finds no link "if no active link matches the key, or the
  link is past \<open>expiresAt\<close>". \<open>store\<close> is the stored links, \<open>now\<close> the server clock.
\<close>

definition spec_getLink :: "link list \<Rightarrow> int \<Rightarrow> string \<Rightarrow> link option" where
  "spec_getLink store now k =
     (case find (\<lambda>l. link_key l = k) store of
        None \<Rightarrow> None
      | Some l \<Rightarrow>
          (case link_expirationTime l of
             None \<Rightarrow> Some l
           | Some expiresAt \<Rightarrow> if expiresAt < now then None else Some l))"

text \<open>Modelled from the spec: \<open>addUtmParams\<close> of \<open>@reduced.to/utils\<close> is not among the sources.
  Section 4.2 of the specification: the destination is returned "with UTM parameters
  appended per the link's stored UTM set -- appended only for parameters present; no
  parameter appends an empty value". \<open>utm_to_append\<close> selects the parameters,
  \<open>append_query_param\<close> appends one of them as a query parameter.
\<close>

definition utm_to_append :: "utm_params option \<Rightarrow> utm_params" where
  "utm_to_append utm = (case utm of None \<Rightarrow> [] | Some ps \<Rightarrow> filter (\<lambda>p. snd p \<noteq> []) ps)"

definition append_query_param :: "string \<Rightarrow> string \<times> string \<Rightarrow> string" where
  "append_query_param u p =
     u @ (if CHR ''?'' \<in> set u then ''&'' else ''?'') @ fst p @ ''='' @ snd p"

definition spec_addUtmParams :: "string \<Rightarrow> utm_params option \<Rightarrow> string" where
  "spec_addUtmParams url utm = foldl append_query_param url (utm_to_append utm)"

subsection \<open>The ingestion pipeline\<close>

text \<open>The channel between producer and consumer, with its bound and the count of dropped
  events, and the store of persisted click facts.\<close>

record pipeline =
  pl_channel :: "click_event list"
  pl_capacity :: nat
  pl_dropped :: nat
  pl_persisted :: "click_event list"

text \<open>Modelled from the spec: \<open>ShortenerProducer.publish\<close> is not among the sources. Section 4.3
  of the specification: \<open>publish\<close> "enqueues onto a bounded in-memory channel ... and returns
  without waiting for durable persistence"; "if the channel is full, the event is dropped
  and a metric/log is emitted"; there are no retries. The call never fails its caller.
\<close>

definition spec_publish :: "pipeline \<Rightarrow> click_event \<Rightarrow> settlement \<times> pipeline" where
  "spec_publish p ev =
     (if length (pl_channel p) < pl_capacity p
      then (Fulfilled, p\<lparr>pl_channel := pl_channel p @ [ev]\<rparr>)
      else (Fulfilled, p\<lparr>pl_dropped := Suc (pl_dropped p)\<rparr>))"

text \<open>Modelled from the spec: the consumer is not among the sources. Section 4.4 of the
  specification: it drains the channel "in the order delivered" and persists each fact.
  One step takes the oldest event of the channel and stores it; the enrichment of the
  event is left out, the stored fact is the event.
\<close>

definition spec_consume :: "pipeline \<Rightarrow> pipeline" where
  "spec_consume p =
     (case pl_channel p of
        [] \<Rightarrow> p
      | ev # rest \<Rightarrow> p\<lparr>pl_channel := rest, pl_persisted := pl_persisted p @ [ev]\<rparr>)"

text \<open>
  Running a handler whose producer is the one of the specification: \<open>publish\<close> acts on the
  pipeline and the handler resumes with its settlement; the other collaborators answer as
  in \<open>outcome\<close>. The result is what the handler returns or throws and the pipeline at that
  moment.
\<close>

primrec run_pipeline ::
  "services \<Rightarrow> 'r task \<Rightarrow> pipeline \<Rightarrow> (http_exception + 'r) \<times> pipeline" where
  "run_pipeline env (Return r) = (\<lambda>p. (Inr r, p))"
| "run_pipeline env (Throw e) = (\<lambda>p. (Inl e, p))"
| "run_pipeline env (Log_error s t) = run_pipeline env t"
| "run_pipeline env (Log_info s t) = run_pipeline env t"
| "run_pipeline env (Await_getLink k c) = run_pipeline env (c (getLink env k))"
| "run_pipeline env (Await_verifyPassword h pw c) =
     run_pipeline env (c (verifyPassword env h pw))"
| "run_pipeline env (Await_publish ev c) =
     (\<lambda>p. run_pipeline env (c (fst (spec_publish p ev))) (snd (spec_publish p ev)))"
| "run_pipeline env (Await_isSafeUrl u c) = run_pipeline env (c (isSafeUrl env u))"
| "run_pipeline env (Await_all_isSafeUrl us c) =
     run_pipeline env (c (map (isSafeUrl env) us))"
| "run_pipeline env (Await_isKeyAvailable k c) = run_pipeline env (c (isKeyAvailable env k))"
| "run_pipeline env (Await_hashPassword pw c) = run_pipeline env (c (hashPassword env pw))"
| "run_pipeline env (Await_isEligibleToCreateLink u c) =
     run_pipeline env (c (isEligibleToCreateLink env u))"
| "run_pipeline env (Await_createShortenedUrl d c) =
     run_pipeline env (c (createShortenedUrl env d))"
| "run_pipeline env (Await_createUsersShortenedUrl u d c) =
     run_pipeline env (c (createUsersShortenedUrl env u d))"
| "run_pipeline env (Await_all_createUsersShortenedUrl u ds c) =
     run_pipeline env (c (map (createUsersShortenedUrl env u) ds))"
| "run_pipeline env (Await_findUnique k uid c) =
     run_pipeline env (c (findUnique (link_table env) k uid))"
| "run_pipeline env (Await_getClicksOverTime i n c) =
     run_pipeline env (c (getClicksOverTime env i n))"
| "run_pipeline env (Await_getGroupedByField i f n inc c) =
     run_pipeline env (c (getGroupedByField env i f n inc))"

subsection \<open>Grouped analytics\<close>

text \<open>The persisted click fact of section 3 of the specification; the link is referred to
  by the identifier the controller passes to the service.\<close>

record click_fact =
  fact_id :: string
  fact_link :: string
  fact_timestamp :: int
  fact_referer :: "string option"
  fact_device :: string
  fact_os :: string
  fact_browser :: string
  fact_country :: string
  fact_region :: string
  fact_city :: string

text \<open>Modelled from the spec: \<open>AnalyticsService.getGroupedByField\<close> is not among the sources.
  Section 4.5 of the specification: \<open>groupedByField(link, dimension, days, include?)\<close> counts
  the facts of the link in the window \<open>[now - days, now]\<close> per value of the dimension, which
  is one of device, os, browser, country, region, city; "\<open>include\<close> optionally joins a
  secondary dimension (e.g., city grouped with country) so each row carries both values".
  \<open>dimension_value\<close> reads a dimension of a fact, \<open>included_values\<close> the dimensions that
  \<open>include\<close> switches on, \<open>group_of\<close> the group a fact is counted in; time stamps are in
  milliseconds.
\<close>

definition dimension_value :: "string \<Rightarrow> click_fact \<Rightarrow> string option" where
  "dimension_value name f =
     (if name = ''device'' then Some (fact_device f)
      else if name = ''os'' then Some (fact_os f)
      else if name = ''browser'' then Some (fact_browser f)
      else if name = ''country'' then Some (fact_country f)
      else if name = ''region'' then Some (fact_region f)
      else if name = ''city'' then Some (fact_city f)
      else None)"

definition included_names :: "include_arg option \<Rightarrow> string list" where
  "included_names inc = (case inc of None \<Rightarrow> [] | Some entries \<Rightarrow> map fst (filter snd entries))"

definition included_values :: "string list \<Rightarrow> click_fact \<Rightarrow> (string \<times> string) list" where
  "included_values names f =
     concat (map (\<lambda>n. case dimension_value n f of None \<Rightarrow> [] | Some v \<Rightarrow> [(n, v)]) names)"

definition group_of ::
  "string \<Rightarrow> include_arg option \<Rightarrow> click_fact \<Rightarrow> (string \<times> (string \<times> string) list) option" where
  "group_of field inc f =
     (case dimension_value field f of
        None \<Rightarrow> None
      | Some v \<Rightarrow> Some (v, included_values (included_names inc) f))"

definition in_window :: "int \<Rightarrow> int \<Rightarrow> click_fact \<Rightarrow> bool" where
  "in_window now days f =
     (now - days * 86400000 \<le> fact_timestamp f \<and> fact_timestamp f \<le> now)"

definition selected_facts :: "click_fact list \<Rightarrow> int \<Rightarrow> string \<Rightarrow> int \<Rightarrow> click_fact list" where
  "selected_facts facts now linkId days =
     filter (\<lambda>f. fact_link f = linkId \<and> in_window now days f) facts"

definition spec_getGroupedByField ::
  "click_fact list \<Rightarrow> int \<Rightarrow> string \<Rightarrow> string \<Rightarrow> int \<Rightarrow> include_arg option \<Rightarrow> grouped_row list" where
  "spec_getGroupedByField facts now linkId field days inc =
     map (\<lambda>g. \<lparr>row_field = fst g, row_included = snd g,
               row_count = length (filter (\<lambda>f. group_of field inc f = Some g)
                                      (selected_facts facts now linkId days))\<rparr>)
       (remdups (List.map_filter (group_of field inc) (selected_facts facts now linkId days)))"

section \<open>Observations on a run\<close>

fun is_verify_settled :: "event \<Rightarrow> bool" where
  "is_verify_settled (Settled (Call_verifyPassword h p)) = True"
| "is_verify_settled e = False"

fun is_publish_settled :: "event \<Rightarrow> bool" where
  "is_publish_settled (Settled (Call_publish ev)) = True"
| "is_publish_settled e = False"

text \<open>The handler has awaited a \<open>publish\<close> call, and resumed after it settled, before it
  ended.\<close>

definition awaits_publish :: "services \<Rightarrow> 'r task \<Rightarrow> bool" where
  "awaits_publish env t = list_ex is_publish_settled (trace env t)"

section \<open>A concrete deployment\<close>

text \<open>Three stored links: the link of the specification's end-to-end scenario, a
  password-protected link with UTM parameters, and a link whose expiry has passed at the
  clock value 5000.\<close>

definition example_link :: link where
  "example_link =
     \<lparr>link_id = ''L1'', link_key = ''abc1'', link_url = ''https://example.com'',
      link_password = None, link_utm = None, link_userId = Some ''u1'',
      link_expirationTime = None\<rparr>"

definition protected_link :: link where
  "protected_link =
     \<lparr>link_id = ''L2'', link_key = ''lock'', link_url = ''https://example.org/a'',
      link_password = Some ''hash:secret'',
      link_utm = Some [(''utm_source'', ''news''), (''utm_medium'', [])],
      link_userId = Some ''u1'', link_expirationTime = None\<rparr>"

definition expired_link :: link where
  "expired_link =
     \<lparr>link_id = ''L3'', link_key = ''old1'', link_url = ''https://example.net'',
      link_password = None, link_utm = None, link_userId = Some ''u2'',
      link_expirationTime = Some 1000\<rparr>"

definition example_table :: "link list" where
  "example_table = [example_link, protected_link, expired_link]"

definition example_client :: client_details where
  "example_client = \<lparr>cd_ip = ''203.0.113.7'', cd_userAgent = ''Mozilla/5.0''\<rparr>"

definition example_user :: user_context where
  "example_user = \<lparr>user_id = ''u1'', user_verified = True\<rparr>"

definition other_user :: user_context where
  "other_user = \<lparr>user_id = ''u2'', user_verified = True\<rparr>"

text \<open>Services over that table: a password verifies against \<open>hash:\<close> followed by itself,
  every url is safe, a key is available when no stored link has it, user \<open>u1\<close> has
  exhausted the quota, and a created link gets the requested key or \<open>rand01\<close>.\<close>

definition example_services :: services where
  "example_services =
     \<lparr>getLink = spec_getLink example_table 5000,
      verifyPassword = (\<lambda>h p. h = ''hash:'' @ p),
      publish = (\<lambda>ev. Fulfilled),
      isSafeUrl = (\<lambda>u. True),
      isKeyAvailable = (\<lambda>k. find (\<lambda>l. link_key l = k) example_table = None),
      hashPassword = (\<lambda>p. ''hash:'' @ p),
      isEligibleToCreateLink = (\<lambda>u. u \<noteq> ''u1''),
      createShortenedUrl = (\<lambda>d. case dto_key d of None \<Rightarrow> ''rand01'' | Some k \<Rightarrow> k),
      createUsersShortenedUrl = (\<lambda>u d. case dto_key d of None \<Rightarrow> ''rand01'' | Some k \<Rightarrow> k),
      link_table = example_table,
      getClicksOverTime = (\<lambda>i n. [(''2024-01-01'', 1)]),
      getGroupedByField = (\<lambda>i f n inc. [])\<rparr>"

text \<open>The same services with a producer whose every \<open>publish\<close> is rejected.\<close>

definition failing_services :: services where
  "failing_services = example_services\<lparr>publish := \<lambda>ev. Rejected ''broker unreachable''\<rparr>"


text \<open>Creation requests: a plain one, one that asks for the key of a stored link, one with a
  password, one flagged temporary that carries a password, and one whose key has
  characters outside \<open>[A-Za-z0-9-]\<close>.\<close>

definition example_dto :: shortener_dto where
  "example_dto =
     \<lparr>dto_url = ''https://example.com/page'', dto_key = None, dto_description = None,
      dto_expirationTime = None, dto_password = None, dto_utm_ref = None,
      dto_utm_source = None, dto_utm_medium = None, dto_utm_campaign = None,
      dto_utm_term = None, dto_utm_content = None, dto_temporary = None\<rparr>"

definition taken_key_dto :: shortener_dto where
  "taken_key_dto = example_dto\<lparr>dto_key := Some ''abc1''\<rparr>"

definition password_dto :: shortener_dto where
  "password_dto = example_dto\<lparr>dto_password := Some ''secret''\<rparr>"

definition temporary_dto :: shortener_dto where
  "temporary_dto = example_dto\<lparr>dto_password := Some ''secret'', dto_temporary := Some True\<rparr>"

definition odd_key_dto :: shortener_dto where
  "odd_key_dto = example_dto\<lparr>dto_key := Some ''a/b?_c!''\<rparr>"

text \<open>The calls that only the single-link path makes.\<close>

fun is_single_only :: "event \<Rightarrow> bool" where
  "is_single_only (Settled (Call_isKeyAvailable k)) = True"
| "is_single_only (Settled (Call_hashPassword p)) = True"
| "is_single_only (Settled (Call_isEligibleToCreateLink u)) = True"
| "is_single_only (Settled (Call_createShortenedUrl d)) = True"
| "is_single_only e = False"

text \<open>A pipeline with room for two events and nothing in it.\<close>

definition empty_pipeline :: pipeline where
  "empty_pipeline = \<lparr>pl_channel = [], pl_capacity = 2, pl_dropped = 0, pl_persisted = []\<rparr>"

text \<open>Click facts of the stored links: two clicks from Berlin and one from Paris on the
  first link, inside the last seven days at the clock value 5000, and one click on the third
  link.\<close>

definition fact_berlin1 :: click_fact where
  "fact_berlin1 =
     \<lparr>fact_id = ''f1'', fact_link = ''L1'', fact_timestamp = 1000, fact_referer = None,
      fact_device = ''desktop'', fact_os = ''Linux'', fact_browser = ''Firefox'',
      fact_country = ''DE'', fact_region = ''BE'', fact_city = ''Berlin''\<rparr>"

definition fact_paris :: click_fact where
  "fact_paris =
     \<lparr>fact_id = ''f2'', fact_link = ''L1'', fact_timestamp = 2000, fact_referer = None,
      fact_device = ''mobile'', fact_os = ''iOS'', fact_browser = ''Safari'',
      fact_country = ''FR'', fact_region = ''IDF'', fact_city = ''Paris''\<rparr>"

definition fact_berlin2 :: click_fact where
  "fact_berlin2 =
     \<lparr>fact_id = ''f3'', fact_link = ''L1'', fact_timestamp = 3000, fact_referer = None,
      fact_device = ''mobile'', fact_os = ''Android'', fact_browser = ''Chrome'',
      fact_country = ''DE'', fact_region = ''BE'', fact_city = ''Berlin''\<rparr>"

definition fact_other :: click_fact where
  "fact_other =
     \<lparr>fact_id = ''f4'', fact_link = ''L3'', fact_timestamp = 4000, fact_referer = None,
      fact_device = ''desktop'', fact_os = ''unknown'', fact_browser = ''unknown'',
      fact_country = ''unknown'', fact_region = ''unknown'', fact_city = ''unknown''\<rparr>"

definition example_facts :: "click_fact list" where
  "example_facts = [fact_berlin1, fact_paris, fact_berlin2, fact_other]"

text \<open>The example services with the grouped query of the specification over these facts.\<close>

definition analytics_services :: services where
  "analytics_services =
     example_services\<lparr>getGroupedByField := spec_getGroupedByField example_facts 5000\<rparr>"

section \<open>Properties of \<open>findOne\<close>\<close>

lemma outcome_findOne_publish:
  "outcome env (findOne_publish a cd referer d) =
     Inr \<lparr>res_url = a (link_url d) (link_utm d), res_key = link_key d\<rparr>"
  by (simp add: findOne_publish_def split: settlement.split)

lemma trace_findOne_publish:
  "trace env (findOne_publish a cd referer d) =
     Settled (Call_publish (click_of cd referer d))
       # (case publish env (click_of cd referer d) of
            Fulfilled \<Rightarrow> []
          | Rejected m \<Rightarrow> [Logged_error (''Error while publishing shortened url: '' @ m)])"
  by (simp add: findOne_publish_def split: settlement.split)

lemma outcome_findOne_gate_ok:
  assumes "getLink env key = Some d" and "password_gate_ok env d pw"
  shows "outcome env (findOne a cd key pw referer) =
           Inr \<lparr>res_url = a (link_url d) (link_utm d), res_key = link_key d\<rparr>"
proof (cases "stored_hash d")
  case None
  with assms show ?thesis
    by (simp add: findOne_def outcome_findOne_publish)
next
  case (Some h)
  with assms show ?thesis
    by (simp add: findOne_def password_gate_ok_def outcome_findOne_publish)
qed

lemma outcome_findOne_gate_closed:
  assumes "getLink env key = Some d" and "\<not> password_gate_ok env d pw"
  shows "outcome env (findOne a cd key pw referer) =
           Inl (UnauthorizedException ''Incorrect password for this url!'')"
proof (cases "stored_hash d")
  case None
  with assms show ?thesis
    by (simp add: password_gate_ok_def)
next
  case (Some h)
  with assms show ?thesis
    by (simp add: findOne_def password_gate_ok_def)
qed

lemma trace_findOne_found:
  assumes "getLink env key = Some d"
  shows "trace env (findOne a cd key pw referer) =
           Settled (Call_getLink key)
             # (case stored_hash d of
                  None \<Rightarrow> []
                | Some h \<Rightarrow> [Settled (Call_verifyPassword h (password_or_default pw))])
             @ (if password_gate_ok env d pw then trace env (findOne_publish a cd referer d)
                else [])"
proof (cases "stored_hash d")
  case None
  with assms show ?thesis
    by (simp add: findOne_def password_gate_ok_def)
next
  case (Some h)
  with assms show ?thesis
    by (simp add: findOne_def password_gate_ok_def)
qed

lemma findOne_success_link:
  assumes "outcome env (findOne a cd key pw referer) = Inr r"
  shows "\<exists>d. getLink env key = Some d \<and> password_gate_ok env d pw"
proof (cases "getLink env key")
  case None
  with assms show ?thesis by (simp add: findOne_def)
next
  case (Some d)
  show ?thesis
  proof (cases "password_gate_ok env d pw")
    case True
    with Some show ?thesis by simp
  next
    case False
    from outcome_findOne_gate_closed [OF Some False, of a cd referer] assms
    show ?thesis by simp
  qed
qed

lemma foldl_append_query_param:
  "\<exists>suffix. foldl append_query_param u ps = u @ suffix"
proof (induction ps arbitrary: u)
  case Nil
  show ?case by simp
next
  case (Cons p ps)
  obtain s where "foldl append_query_param (append_query_param u p) ps
                    = append_query_param u p @ s"
    using Cons.IH by blast
  then have "foldl append_query_param u (p # ps) =
               u @ ((if CHR ''?'' \<in> set u then ''&'' else ''?'') @ fst p @ ''='' @ snd p @ s)"
    by (simp add: append_query_param_def)
  then show ?case by (rule exI)
qed

lemma getLink_example [simp]:
  "spec_getLink example_table 5000 ''abc1'' = Some example_link"
  "spec_getLink example_table 5000 ''lock'' = Some protected_link"
  "spec_getLink example_table 5000 ''old1'' = None"
  "spec_getLink example_table 5000 ''none'' = None"
  by (simp_all add: spec_getLink_def example_table_def example_link_def protected_link_def
        expired_link_def)

lemma stored_hash_example [simp]:
  "stored_hash example_link = None"
  "stored_hash protected_link = Some ''hash:secret''"
  by (simp_all add: stored_hash_def example_link_def protected_link_def)

lemma addUtmParams_example [simp]:
  "spec_addUtmParams (link_url example_link) (link_utm example_link) = ''https://example.com''"
  "spec_addUtmParams (link_url protected_link) (link_utm protected_link)
     = ''https://example.org/a?utm_source=news''"
  by (simp_all add: spec_addUtmParams_def utm_to_append_def append_query_param_def
        example_link_def protected_link_def)

lemma link_key_example [simp]:
  "link_key example_link = ''abc1''"
  "link_key protected_link = ''lock''"
  by (simp_all add: example_link_def protected_link_def)

text \<open>
  C1. On an existing link that passes the password gate, a \<open>publish\<close> that rejects with an
  error is caught and logged (the last events of the handler are the settled publish call
  and the logged error line), and the handler returns the same \<open>{url, key}\<close> as it returns
  when \<open>publish\<close> is fulfilled: the rejection never makes the resolution fail.
\<close>

theorem findOne_publish_failure_contained:
  assumes "getLink env key = Some d"
    and "password_gate_ok env d pw"
    and "publish env (click_of cd referer d) = Rejected m"
  shows "outcome env (findOne a cd key pw referer) =
           Inr \<lparr>res_url = a (link_url d) (link_utm d), res_key = link_key d\<rparr>
       \<and> outcome (env\<lparr>publish := \<lambda>_. Fulfilled\<rparr>) (findOne a cd key pw referer) =
           outcome env (findOne a cd key pw referer)
       \<and> (\<exists>before. trace env (findOne a cd key pw referer) =
            before @ [Settled (Call_publish (click_of cd referer d)),
                      Logged_error (''Error while publishing shortened url: '' @ m)])"
proof -
  let ?ok = "env\<lparr>publish := \<lambda>_. Fulfilled\<rparr>"
  let ?before = "Settled (Call_getLink key)
             # (case stored_hash d of
                  None \<Rightarrow> []
                | Some h \<Rightarrow> [Settled (Call_verifyPassword h (password_or_default pw))])"
  have gate: "password_gate_ok ?ok d pw"
    using assms(2) by (simp add: password_gate_ok_def split: option.splits)
  have link: "getLink ?ok key = Some d"
    using assms(1) by simp
  have o1: "outcome env (findOne a cd key pw referer) =
              Inr \<lparr>res_url = a (link_url d) (link_utm d), res_key = link_key d\<rparr>"
    by (rule outcome_findOne_gate_ok [OF assms(1) assms(2)])
  have o2: "outcome ?ok (findOne a cd key pw referer) =
              Inr \<lparr>res_url = a (link_url d) (link_utm d), res_key = link_key d\<rparr>"
    by (rule outcome_findOne_gate_ok [OF link gate])
  have t: "trace env (findOne a cd key pw referer) =
             ?before @ [Settled (Call_publish (click_of cd referer d)),
                        Logged_error (''Error while publishing shortened url: '' @ m)]"
    using assms(2,3) by (simp add: trace_findOne_found [OF assms(1)] trace_findOne_publish)
  show ?thesis
  proof (intro conjI)
    show "outcome env (findOne a cd key pw referer) =
            Inr \<lparr>res_url = a (link_url d) (link_utm d), res_key = link_key d\<rparr>"
      by (rule o1)
    show "outcome ?ok (findOne a cd key pw referer) = outcome env (findOne a cd key pw referer)"
      by (simp only: o1 o2)
    show "\<exists>before. trace env (findOne a cd key pw referer) =
            before @ [Settled (Call_publish (click_of cd referer d)),
                      Logged_error (''Error while publishing shortened url: '' @ m)]"
      by (intro exI) (rule t)
  qed
qed

theorem findOne_publish_failure_contained_witness:
  "getLink failing_services ''abc1'' = Some example_link
   \<and> password_gate_ok failing_services example_link None
   \<and> publish failing_services (click_of example_client None example_link)
       = Rejected ''broker unreachable''
   \<and> outcome failing_services (findOne spec_addUtmParams example_client ''abc1'' None None) =
       Inr \<lparr>res_url = ''https://example.com'', res_key = ''abc1''\<rparr>
   \<and> outcome (failing_services\<lparr>publish := \<lambda>_. Fulfilled\<rparr>)
         (findOne spec_addUtmParams example_client ''abc1'' None None) =
       outcome failing_services (findOne spec_addUtmParams example_client ''abc1'' None None)"
proof -
  have h1: "getLink failing_services ''abc1'' = Some example_link"
    by (simp add: failing_services_def example_services_def)
  have h2: "password_gate_ok failing_services example_link None"
    by (simp add: password_gate_ok_def)
  have h3: "publish failing_services (click_of example_client None example_link)
              = Rejected ''broker unreachable''"
    by (simp add: failing_services_def)
  from findOne_publish_failure_contained [OF h1 h2 h3, of spec_addUtmParams] h1 h2 h3
  show ?thesis by simp
qed

text \<open>
  C3. With \<open>getLink\<close> as the specification describes it, resolving the key of a link whose
  expiry has passed and resolving a key that no stored link has end the same way: both
  throw the same exception with the same message, after the lookup alone (no password
  check, no publication).
\<close>

theorem findOne_expired_as_missing:
  assumes "find (\<lambda>l. link_key l = k) store = Some l"
    and "link_expirationTime l = Some expiresAt"
    and "expiresAt < now"
    and "find (\<lambda>l. link_key l = k') store = None"
    and "getLink env = spec_getLink store now"
  shows "outcome env (findOne a cd k pw referer) =
           Inl (BadRequestException ''Shortened url is wrong or expired'')
       \<and> outcome env (findOne a cd' k' pw' referer') = outcome env (findOne a cd k pw referer)
       \<and> trace env (findOne a cd k pw referer) = [Settled (Call_getLink k)]
       \<and> trace env (findOne a cd' k' pw' referer') = [Settled (Call_getLink k')]"
proof -
  have expired: "getLink env k = None"
    using assms(1,2,3,5) by (simp add: spec_getLink_def)
  have missing: "getLink env k' = None"
    using assms(4,5) by (simp add: spec_getLink_def)
  from expired missing show ?thesis
    by (simp add: findOne_def)
qed

theorem findOne_expired_as_missing_witness:
  "find (\<lambda>l. link_key l = ''old1'') example_table = Some expired_link
   \<and> link_expirationTime expired_link = Some 1000
   \<and> (1000::int) < 5000
   \<and> find (\<lambda>l. link_key l = ''none'') example_table = None
   \<and> getLink example_services = spec_getLink example_table 5000
   \<and> outcome example_services (findOne spec_addUtmParams example_client ''old1'' None None) =
       Inl (BadRequestException ''Shortened url is wrong or expired'')
   \<and> outcome example_services (findOne spec_addUtmParams example_client ''none'' None None) =
       outcome example_services (findOne spec_addUtmParams example_client ''old1'' None None)"
proof -
  have h1: "find (\<lambda>l. link_key l = ''old1'') example_table = Some expired_link"
    by (simp add: example_table_def example_link_def protected_link_def expired_link_def)
  have h2: "link_expirationTime expired_link = Some 1000"
    by (simp add: expired_link_def)
  have h3: "(1000::int) < 5000"
    by simp
  have h4: "find (\<lambda>l. link_key l = ''none'') example_table = None"
    by (simp add: example_table_def example_link_def protected_link_def expired_link_def)
  have h5: "getLink example_services = spec_getLink example_table 5000"
    by (simp add: example_services_def)
  from findOne_expired_as_missing [OF h1 h2 h3 h4 h5, of spec_addUtmParams example_client
      None None example_client None None] h1 h2 h3 h4 h5
  show ?thesis by simp
qed

text \<open>
  C4. For a link with a stored password hash (a truthy \<open>password\<close> column), resolution
  with a supplied password that does not verify against the hash throws
  \<open>UnauthorizedException\<close>, and with one that verifies it returns the destination and the
  key. For a link without one, the result is the destination and no verification is
  awaited. The only verification in a run is that of the stored hash against the supplied
  password.
\<close>

theorem findOne_password_gate:
  assumes "getLink env key = Some d"
  shows "outcome env (findOne a cd key pw referer) =
           (case stored_hash d of
              None \<Rightarrow> Inr \<lparr>res_url = a (link_url d) (link_utm d), res_key = link_key d\<rparr>
            | Some h \<Rightarrow>
                if verifyPassword env h (password_or_default pw)
                then Inr \<lparr>res_url = a (link_url d) (link_utm d), res_key = link_key d\<rparr>
                else Inl (UnauthorizedException ''Incorrect password for this url!''))
       \<and> filter is_verify_settled (trace env (findOne a cd key pw referer)) =
           (case stored_hash d of
              None \<Rightarrow> []
            | Some h \<Rightarrow> [Settled (Call_verifyPassword h (password_or_default pw))])"
proof (cases "stored_hash d")
  case None
  with assms show ?thesis
    by (simp add: findOne_def outcome_findOne_publish trace_findOne_publish
          split: settlement.split)
next
  case (Some h)
  with assms show ?thesis
    by (simp add: findOne_def outcome_findOne_publish trace_findOne_publish
          split: settlement.split)
qed

theorem findOne_password_gate_witness:
  "getLink example_services ''lock'' = Some protected_link
   \<and> stored_hash protected_link = Some ''hash:secret''
   \<and> outcome example_services
         (findOne spec_addUtmParams example_client ''lock'' (Some ''guess'') None) =
       Inl (UnauthorizedException ''Incorrect password for this url!'')
   \<and> outcome example_services
         (findOne spec_addUtmParams example_client ''lock'' (Some ''secret'') None) =
       Inr \<lparr>res_url = ''https://example.org/a?utm_source=news'', res_key = ''lock''\<rparr>
   \<and> getLink example_services ''abc1'' = Some example_link
   \<and> stored_hash example_link = None
   \<and> outcome example_services
         (findOne spec_addUtmParams example_client ''abc1'' (Some ''guess'') None) =
       Inr \<lparr>res_url = ''https://example.com'', res_key = ''abc1''\<rparr>
   \<and> filter is_verify_settled (trace example_services
         (findOne spec_addUtmParams example_client ''abc1'' (Some ''guess'') None)) = []"
proof -
  have h1: "getLink example_services ''lock'' = Some protected_link"
    by (simp add: example_services_def)
  have h2: "getLink example_services ''abc1'' = Some example_link"
    by (simp add: example_services_def)
  have v: "verifyPassword example_services = (\<lambda>h p. h = ''hash:'' @ p)"
    by (simp add: example_services_def)
  from findOne_password_gate [OF h1, of spec_addUtmParams example_client "Some ''guess''" None]
  have a: "outcome example_services
             (findOne spec_addUtmParams example_client ''lock'' (Some ''guess'') None) =
           Inl (UnauthorizedException ''Incorrect password for this url!'')"
    by (simp add: v password_or_default_def)
  from findOne_password_gate [OF h1, of spec_addUtmParams example_client "Some ''secret''" None]
  have b: "outcome example_services
             (findOne spec_addUtmParams example_client ''lock'' (Some ''secret'') None) =
           Inr \<lparr>res_url = ''https://example.org/a?utm_source=news'', res_key = ''lock''\<rparr>"
    by (simp add: v password_or_default_def)
  from findOne_password_gate [OF h2, of spec_addUtmParams example_client "Some ''guess''" None]
  have c: "outcome example_services
             (findOne spec_addUtmParams example_client ''abc1'' (Some ''guess'') None) =
           Inr \<lparr>res_url = ''https://example.com'', res_key = ''abc1''\<rparr>
         \<and> filter is_verify_settled (trace example_services
             (findOne spec_addUtmParams example_client ''abc1'' (Some ''guess'') None)) = []"
    by simp
  from h1 h2 a b c show ?thesis by simp
qed

text \<open>
  C6. A successful resolution returns the key of the stored link and its destination with
  the stored UTM parameters appended, \<open>addUtmParams\<close> being as the specification describes
  it: the url starts with the destination, what follows is built from the parameters
  selected for appending, every one of which is a stored parameter, and none of which has
  an empty value.
\<close>

theorem findOne_returns_key_and_utm_url:
  assumes "outcome env (findOne spec_addUtmParams cd key pw referer) = Inr r"
  shows "\<exists>d. getLink env key = Some d
           \<and> res_key r = link_key d
           \<and> res_url r = foldl append_query_param (link_url d) (utm_to_append (link_utm d))
           \<and> (\<exists>suffix. res_url r = link_url d @ suffix)
           \<and> set (utm_to_append (link_utm d)) \<subseteq> (case link_utm d of None \<Rightarrow> {} | Some ps \<Rightarrow> set ps)
           \<and> list_all (\<lambda>p. snd p \<noteq> []) (utm_to_append (link_utm d))"
proof -
  from findOne_success_link [OF assms]
  obtain d where d: "getLink env key = Some d" and gate: "password_gate_ok env d pw"
    by blast
  from outcome_findOne_gate_ok [OF d gate, of spec_addUtmParams cd referer] assms
  have r: "r = \<lparr>res_url = spec_addUtmParams (link_url d) (link_utm d), res_key = link_key d\<rparr>"
    by simp
  have key: "res_key r = link_key d"
    by (simp add: r)
  have url: "res_url r = foldl append_query_param (link_url d) (utm_to_append (link_utm d))"
    by (simp add: r spec_addUtmParams_def)
  have pre: "\<exists>suffix. res_url r = link_url d @ suffix"
    unfolding url by (rule foldl_append_query_param)
  have sub: "set (utm_to_append (link_utm d)) \<subseteq> (case link_utm d of None \<Rightarrow> {} | Some ps \<Rightarrow> set ps)"
    by (auto simp: utm_to_append_def split: option.splits)
  have nonempty: "list_all (\<lambda>p. snd p \<noteq> []) (utm_to_append (link_utm d))"
    by (auto simp: utm_to_append_def list_all_iff split: option.splits)
  from d key url pre sub nonempty show ?thesis
    by blast
qed

theorem findOne_returns_key_and_utm_url_witness:
  "outcome example_services
       (findOne spec_addUtmParams example_client ''lock'' (Some ''secret'') None) =
     Inr \<lparr>res_url = ''https://example.org/a?utm_source=news'', res_key = ''lock''\<rparr>
   \<and> (\<exists>d. getLink example_services ''lock'' = Some d
          \<and> ''lock'' = link_key d
          \<and> ''https://example.org/a?utm_source=news'' =
              foldl append_query_param (link_url d) (utm_to_append (link_utm d))
          \<and> list_all (\<lambda>p. snd p \<noteq> []) (utm_to_append (link_utm d)))"
proof -
  have h1: "getLink example_services ''lock'' = Some protected_link"
    by (simp add: example_services_def)
  have gate: "password_gate_ok example_services protected_link (Some ''secret'')"
    by (simp add: password_gate_ok_def password_or_default_def example_services_def)
  have o: "outcome example_services
             (findOne spec_addUtmParams example_client ''lock'' (Some ''secret'') None) =
           Inr \<lparr>res_url = ''https://example.org/a?utm_source=news'', res_key = ''lock''\<rparr>"
    using outcome_findOne_gate_ok [OF h1 gate, of spec_addUtmParams example_client None]
    by simp
  from findOne_returns_key_and_utm_url [OF o] o show ?thesis
    by auto
qed

lemma gate_any_producer:
  "password_gate_ok (env\<lparr>publish := producer\<rparr>) d pw = password_gate_ok env d pw"
  by (simp add: password_gate_ok_def split: option.split)

lemma run_pipeline_findOne_publish:
  "run_pipeline env (findOne_publish a cd referer d) q =
     (Inr \<lparr>res_url = a (link_url d) (link_utm d), res_key = link_key d\<rparr>,
      snd (spec_publish q (click_of cd referer d)))"
  by (simp add: findOne_publish_def spec_publish_def)

lemma run_pipeline_findOne_gate_ok:
  assumes "getLink env key = Some d" and "password_gate_ok env d pw"
  shows "run_pipeline env (findOne a cd key pw referer) q =
           (Inr \<lparr>res_url = a (link_url d) (link_utm d), res_key = link_key d\<rparr>,
            snd (spec_publish q (click_of cd referer d)))"
proof (cases "stored_hash d")
  case None
  with assms show ?thesis
    by (simp add: findOne_def run_pipeline_findOne_publish)
next
  case (Some h)
  with assms show ?thesis
    by (simp add: findOne_def password_gate_ok_def run_pipeline_findOne_publish)
qed

lemma persisted_spec_publish:
  "pl_persisted (snd (spec_publish q ev)) = pl_persisted q"
  by (simp add: spec_publish_def)

text \<open>
  C2, as the code has it. A resolution that succeeds has awaited the \<open>publish\<close> call for
  the resolved link: the handler is suspended on that call and produces its response only
  once the call has settled, fulfilled or rejected, and the response is the same whichever
  way the call settles, for every producer. With the producer of the specification, which
  only enqueues the event or drops it, the handler returns that same response while the
  store of persisted facts is as it was before the request: it has not waited for the
  event's durable persistence.
\<close>

theorem findOne_response_after_publish_settles:
  assumes "outcome env (findOne a cd key pw referer) = Inr r"
  shows "awaits_publish env (findOne a cd key pw referer)
       \<and> (\<exists>d before after. getLink env key = Some d
            \<and> trace env (findOne a cd key pw referer) =
                before @ Settled (Call_publish (click_of cd referer d)) # after
            \<and> after = (case publish env (click_of cd referer d) of
                          Fulfilled \<Rightarrow> []
                        | Rejected m \<Rightarrow>
                            [Logged_error (''Error while publishing shortened url: '' @ m)]))
       \<and> outcome (env\<lparr>publish := producer\<rparr>) (findOne a cd key pw referer) = Inr r
       \<and> fst (run_pipeline env (findOne a cd key pw referer) q) = Inr r
       \<and> pl_persisted (snd (run_pipeline env (findOne a cd key pw referer) q)) = pl_persisted q
       \<and> (\<exists>d. getLink env key = Some d
            \<and> snd (run_pipeline env (findOne a cd key pw referer) q) =
                snd (spec_publish q (click_of cd referer d)))"
proof -
  from findOne_success_link [OF assms]
  obtain d where d: "getLink env key = Some d" and gate: "password_gate_ok env d pw"
    by blast
  let ?before = "Settled (Call_getLink key)
             # (case stored_hash d of
                  None \<Rightarrow> []
                | Some h \<Rightarrow> [Settled (Call_verifyPassword h (password_or_default pw))])"
  let ?after = "case publish env (click_of cd referer d) of
                  Fulfilled \<Rightarrow> []
                | Rejected m \<Rightarrow> [Logged_error (''Error while publishing shortened url: '' @ m)]"
  have r: "r = \<lparr>res_url = a (link_url d) (link_utm d), res_key = link_key d\<rparr>"
    using outcome_findOne_gate_ok [OF d gate, of a cd referer] assms by simp
  have t: "trace env (findOne a cd key pw referer) =
             ?before @ Settled (Call_publish (click_of cd referer d)) # ?after"
    using gate by (simp add: trace_findOne_found [OF d] trace_findOne_publish)
  have aw: "awaits_publish env (findOne a cd key pw referer)"
    unfolding awaits_publish_def t by simp
  have seq: "\<exists>d before after. getLink env key = Some d
            \<and> trace env (findOne a cd key pw referer) =
                before @ Settled (Call_publish (click_of cd referer d)) # after
            \<and> after = (case publish env (click_of cd referer d) of
                          Fulfilled \<Rightarrow> []
                        | Rejected m \<Rightarrow>
                            [Logged_error (''Error while publishing shortened url: '' @ m)])"
    using d t by blast
  have d': "getLink (env\<lparr>publish := producer\<rparr>) key = Some d"
    using d by simp
  have gate': "password_gate_ok (env\<lparr>publish := producer\<rparr>) d pw"
    using gate by (simp only: gate_any_producer)
  have same: "outcome (env\<lparr>publish := producer\<rparr>) (findOne a cd key pw referer) = Inr r"
    using outcome_findOne_gate_ok [OF d' gate', of a cd referer] r by simp
  have run: "run_pipeline env (findOne a cd key pw referer) q =
               (Inr r, snd (spec_publish q (click_of cd referer d)))"
    using run_pipeline_findOne_gate_ok [OF d gate, of a cd referer q] r by simp
  have res: "fst (run_pipeline env (findOne a cd key pw referer) q) = Inr r"
    by (simp add: run)
  have per: "pl_persisted (snd (run_pipeline env (findOne a cd key pw referer) q))
               = pl_persisted q"
    by (simp add: run persisted_spec_publish)
  have chan: "\<exists>d. getLink env key = Some d
            \<and> snd (run_pipeline env (findOne a cd key pw referer) q) =
                snd (spec_publish q (click_of cd referer d))"
    using d run by simp
  show ?thesis
  proof (intro conjI)
    show "awaits_publish env (findOne a cd key pw referer)" by (rule aw)
    show "\<exists>d before after. getLink env key = Some d
            \<and> trace env (findOne a cd key pw referer) =
                before @ Settled (Call_publish (click_of cd referer d)) # after
            \<and> after = (case publish env (click_of cd referer d) of
                          Fulfilled \<Rightarrow> []
                        | Rejected m \<Rightarrow>
                            [Logged_error (''Error while publishing shortened url: '' @ m)])"
      by (rule seq)
    show "outcome (env\<lparr>publish := producer\<rparr>) (findOne a cd key pw referer) = Inr r"
      by (rule same)
    show "fst (run_pipeline env (findOne a cd key pw referer) q) = Inr r" by (rule res)
    show "pl_persisted (snd (run_pipeline env (findOne a cd key pw referer) q)) = pl_persisted q"
      by (rule per)
    show "\<exists>d. getLink env key = Some d
            \<and> snd (run_pipeline env (findOne a cd key pw referer) q) =
                snd (spec_publish q (click_of cd referer d))"
      by (rule chan)
  qed
qed

theorem findOne_response_after_publish_settles_witness:
  "outcome example_services (findOne spec_addUtmParams example_client ''abc1'' None None) =
     Inr \<lparr>res_url = ''https://example.com'', res_key = ''abc1''\<rparr>
   \<and> awaits_publish example_services
       (findOne spec_addUtmParams example_client ''abc1'' None None)
   \<and> outcome (example_services\<lparr>publish := \<lambda>ev. Rejected ''broker unreachable''\<rparr>)
         (findOne spec_addUtmParams example_client ''abc1'' None None) =
       Inr \<lparr>res_url = ''https://example.com'', res_key = ''abc1''\<rparr>
   \<and> fst (run_pipeline example_services
         (findOne spec_addUtmParams example_client ''abc1'' None None) empty_pipeline) =
       Inr \<lparr>res_url = ''https://example.com'', res_key = ''abc1''\<rparr>
   \<and> pl_persisted (snd (run_pipeline example_services
         (findOne spec_addUtmParams example_client ''abc1'' None None) empty_pipeline)) = []
   \<and> pl_channel (snd (run_pipeline example_services
         (findOne spec_addUtmParams example_client ''abc1'' None None) empty_pipeline)) =
       [click_of example_client None example_link]
   \<and> pl_persisted (spec_consume (snd (run_pipeline example_services
         (findOne spec_addUtmParams example_client ''abc1'' None None) empty_pipeline))) =
       [click_of example_client None example_link]"
proof -
  have h1: "getLink example_services ''abc1'' = Some example_link"
    by (simp add: example_services_def)
  have gate: "password_gate_ok example_services example_link None"
    by (simp add: password_gate_ok_def)
  have o: "outcome example_services (findOne spec_addUtmParams example_client ''abc1'' None None) =
             Inr \<lparr>res_url = ''https://example.com'', res_key = ''abc1''\<rparr>"
    using outcome_findOne_gate_ok [OF h1 gate, of spec_addUtmParams example_client None]
    by simp
  note w = findOne_response_after_publish_settles
             [OF o, of "\<lambda>ev. Rejected ''broker unreachable''" empty_pipeline]
  have p: "pl_persisted empty_pipeline = []"
    by (simp add: empty_pipeline_def)
  have s: "snd (spec_publish empty_pipeline (click_of example_client None example_link)) =
             empty_pipeline\<lparr>pl_channel := [click_of example_client None example_link]\<rparr>"
    by (simp add: spec_publish_def empty_pipeline_def)
  from w h1 have run: "snd (run_pipeline example_services
         (findOne spec_addUtmParams example_client ''abc1'' None None) empty_pipeline) =
       empty_pipeline\<lparr>pl_channel := [click_of example_client None example_link]\<rparr>"
    by (simp add: s)
  have c: "pl_persisted (spec_consume
             (empty_pipeline\<lparr>pl_channel := [click_of example_client None example_link]\<rparr>)) =
           [click_of example_client None example_link]"
    by (simp add: spec_consume_def empty_pipeline_def)
  from w o p run c show ?thesis
    by simp
qed

text \<open>
  C2, as the claim states it, fails: here is a resolution that succeeds and whose
  response comes after the \<open>publish\<close> call has settled. The handler's run consists of the
  lookup and the awaited publication, in this order, and only then the response.
\<close>

theorem findOne_nonblocking_publish_counterexample:
  "outcome example_services (findOne spec_addUtmParams example_client ''abc1'' None None) =
     Inr \<lparr>res_url = ''https://example.com'', res_key = ''abc1''\<rparr>
   \<and> trace example_services (findOne spec_addUtmParams example_client ''abc1'' None None) =
       [Settled (Call_getLink ''abc1''),
        Settled (Call_publish
          \<lparr>ev_ip = ''203.0.113.7'', ev_userAgent = ''Mozilla/5.0'', ev_referer = None,
           ev_key = ''abc1'', ev_url = ''https://example.com''\<rparr>)]
   \<and> \<not> (\<not> awaits_publish example_services
            (findOne spec_addUtmParams example_client ''abc1'' None None))"
proof -
  have h1: "getLink example_services ''abc1'' = Some example_link"
    by (simp add: example_services_def)
  have gate: "password_gate_ok example_services example_link None"
    by (simp add: password_gate_ok_def)
  have p: "publish example_services = (\<lambda>ev. Fulfilled)"
    by (simp add: example_services_def)
  have o: "outcome example_services (findOne spec_addUtmParams example_client ''abc1'' None None) =
             Inr \<lparr>res_url = ''https://example.com'', res_key = ''abc1''\<rparr>"
    using outcome_findOne_gate_ok [OF h1 gate, of spec_addUtmParams example_client None]
    by simp
  have c: "click_of example_client None example_link =
             \<lparr>ev_ip = ''203.0.113.7'', ev_userAgent = ''Mozilla/5.0'', ev_referer = None,
              ev_key = ''abc1'', ev_url = ''https://example.com''\<rparr>"
    by (simp add: click_of_def example_link_def example_client_def)
  have t: "trace example_services (findOne spec_addUtmParams example_client ''abc1'' None None) =
       [Settled (Call_getLink ''abc1''),
        Settled (Call_publish
          \<lparr>ev_ip = ''203.0.113.7'', ev_userAgent = ''Mozilla/5.0'', ev_referer = None,
           ev_key = ''abc1'', ev_url = ''https://example.com''\<rparr>)]"
    using gate by (simp add: trace_findOne_found [OF h1] trace_findOne_publish p c)
  have aw: "awaits_publish example_services
              (findOne spec_addUtmParams example_client ''abc1'' None None)"
    unfolding awaits_publish_def t by simp
  from o t aw show ?thesis by simp
qed

section \<open>Properties of link creation\<close>

lemma show_nat_1 [simp]: "show_nat (Suc 0) = ''1''"
  by (simp add: show_nat.simps [of "Suc 0"] digit_char_def)

lemma example_services_simps [simp]:
  "isSafeUrl example_services u = True"
  "isKeyAvailable example_services ''abc1'' = False"
  "isKeyAvailable example_services ''a/b?_c!'' = True"
  "hashPassword example_services p = ''hash:'' @ p"
  "isEligibleToCreateLink example_services u = (u \<noteq> ''u1'')"
  "createShortenedUrl example_services d = (case dto_key d of None \<Rightarrow> ''rand01'' | Some k \<Rightarrow> k)"
  "createUsersShortenedUrl example_services usr d =
     (case dto_key d of None \<Rightarrow> ''rand01'' | Some k \<Rightarrow> k)"
  by (simp_all add: example_services_def example_table_def example_link_def protected_link_def
        expired_link_def)

lemma example_users_simps [simp]:
  "user_id example_user = ''u1''" "user_verified example_user"
  "user_id other_user = ''u2''" "user_verified other_user"
  by (simp_all add: example_user_def other_user_def)

lemma example_dto_simps [simp]:
  "dto_url example_dto = ''https://example.com/page''"
  "dto_key example_dto = None"
  "dto_password example_dto = None"
  "dto_temporary example_dto = None"
  by (simp_all add: example_dto_def)

text \<open>What \<open>bulk\<close> does, for every list of requests.\<close>

lemma trace_bulk_verified:
  "trace env (bulk_verified dtos req_user) =
     (case req_user of
        None \<Rightarrow> []
      | Some user \<Rightarrow>
          if \<not> user_verified user then []
          else Logged_info (''User '' @ user_id user @ '' is creating a bulk-shortened url for ''
                              @ show_nat (length dtos) @ '' urls'')
                 # map (\<lambda>d. Settled (Call_createUsersShortenedUrl user d)) dtos)"
  by (simp add: bulk_verified_def split: option.split)

lemma outcome_bulk_verified:
  "outcome env (bulk_verified dtos req_user) =
     (case req_user of
        None \<Rightarrow> Inl (BadRequestException ''You must be verified in to create a shortened url'')
      | Some user \<Rightarrow>
          if \<not> user_verified user
          then Inl (BadRequestException ''You must be verified in to create a shortened url'')
          else Inr (map (createUsersShortenedUrl env user) dtos))"
  by (simp add: bulk_verified_def split: option.split)

lemma trace_bulk:
  "trace env (bulk enable dtos req_user) =
     (if enable then map (\<lambda>d. Settled (Call_isSafeUrl (dto_url d))) dtos else [])
     @ (if enable \<and> \<not> list_all (\<lambda>d. isSafeUrl env (dto_url d)) dtos then []
        else case req_user of
               None \<Rightarrow> []
             | Some user \<Rightarrow>
                 if \<not> user_verified user then []
                 else Logged_info (''User '' @ user_id user
                                     @ '' is creating a bulk-shortened url for ''
                                     @ show_nat (length dtos) @ '' urls'')
                        # map (\<lambda>d. Settled (Call_createUsersShortenedUrl user d)) dtos)"
  by (simp add: bulk_def trace_bulk_verified list_all_iff comp_def)

lemma outcome_bulk:
  "outcome env (bulk enable dtos req_user) =
     (if enable \<and> \<not> list_all (\<lambda>d. isSafeUrl env (dto_url d)) dtos
      then Inl (BadRequestException ''This url is not safe to shorten!'')
      else case req_user of
             None \<Rightarrow> Inl (BadRequestException ''You must be verified in to create a shortened url'')
           | Some user \<Rightarrow>
               if \<not> user_verified user
               then Inl (BadRequestException ''You must be verified in to create a shortened url'')
               else Inr (map (createUsersShortenedUrl env user) dtos))"
  by (simp add: bulk_def outcome_bulk_verified list_all_iff)

lemma bulk_no_single_only:
  "filter is_single_only (trace env (bulk enable dtos req_user)) = []"
  by (auto simp: trace_bulk filter_empty_conv split: option.split)

text \<open>What \<open>shortener\<close> does with a temporary request, for every caller: the password is
  taken out of the request before \<open>createShortenedUrl\<close> is called.\<close>

lemma shortener_temporary_discards_password:
  assumes "dto_temporary dto = Some True" and "dto_key dto = None"
  shows "trace env (shortener False dto req_user) =
           [Settled (Call_createShortenedUrl (dto\<lparr>dto_password := None\<rparr>))]"
  using assms
  by (simp add: shortener_def shortener_key_def shortener_temporary_def truthy_bool_def)

text \<open>The single-link path on the four example requests.\<close>

lemma shortener_taken_key:
  "outcome example_services (shortener True taken_key_dto (Some other_user)) =
     Inl (BadRequestException ''This short link already exists'')"
  by (simp add: shortener_def shortener_key_def taken_key_dto_def)

lemma bulk_taken_key:
  "outcome example_services (bulk True [taken_key_dto] (Some other_user)) = Inr [''abc1'']"
  by (simp add: outcome_bulk taken_key_dto_def)

lemma shortener_quota:
  "outcome example_services (shortener True example_dto (Some example_user)) =
     Inl (BadRequestException ''You have reached your link creation limit'')"
  by (simp add: shortener_def shortener_key_def shortener_temporary_def shortener_verified_def
        shortener_eligible_def truthy_bool_def)

lemma bulk_quota:
  "outcome example_services (bulk True [example_dto] (Some example_user)) = Inr [''rand01'']"
  by (simp add: outcome_bulk)

lemma shortener_hashes:
  "trace example_services (shortener True password_dto (Some other_user)) =
     [Settled (Call_isSafeUrl ''https://example.com/page''),
      Settled (Call_hashPassword ''secret''),
      Settled (Call_isEligibleToCreateLink ''u2''),
      Logged_info ''User u2 is creating a shortened url for https://example.com/page'',
      Settled (Call_createUsersShortenedUrl other_user
                 (password_dto\<lparr>dto_password := Some ''hash:secret''\<rparr>))]"
  by (simp add: shortener_def shortener_key_def shortener_temporary_def shortener_verified_def
        shortener_eligible_def truthy_bool_def password_dto_def)

lemma bulk_does_not_hash:
  "trace example_services (bulk True [password_dto] (Some other_user)) =
     [Settled (Call_isSafeUrl ''https://example.com/page''),
      Logged_info ''User u2 is creating a bulk-shortened url for 1 urls'',
      Settled (Call_createUsersShortenedUrl other_user password_dto)]"
  by (simp add: trace_bulk password_dto_def)

lemma shortener_temporary_anonymous:
  "trace example_services (shortener True temporary_dto None) =
     [Settled (Call_isSafeUrl ''https://example.com/page''),
      Settled (Call_createShortenedUrl (temporary_dto\<lparr>dto_password := None\<rparr>))]
   \<and> outcome example_services (shortener True temporary_dto None) = Inr ''rand01''"
  by (simp add: shortener_def shortener_key_def shortener_temporary_def truthy_bool_def
        temporary_dto_def)

lemma bulk_temporary_anonymous:
  "outcome example_services (bulk True [temporary_dto] None) =
     Inl (BadRequestException ''You must be verified in to create a shortened url'')"
  by (simp add: outcome_bulk temporary_dto_def)

text \<open>
  C7, at the input where the code departs from it. A verified user posts to \<open>bulk\<close> one
  request flagged temporary that carries the password \<open>secret\<close>. The request reaches
  \<open>createUsersShortenedUrl\<close> as it came, flag and password included, and a link is created;
  \<open>shortener\<close>, given the same request, removes the password before it creates the link.
\<close>

theorem bulk_keeps_password_of_temporary:
  "dto_temporary temporary_dto = Some True
   \<and> dto_password temporary_dto = Some ''secret''
   \<and> trace example_services (bulk True [temporary_dto] (Some other_user)) =
       [Settled (Call_isSafeUrl ''https://example.com/page''),
        Logged_info ''User u2 is creating a bulk-shortened url for 1 urls'',
        Settled (Call_createUsersShortenedUrl other_user temporary_dto)]
   \<and> outcome example_services (bulk True [temporary_dto] (Some other_user)) = Inr [''rand01'']
   \<and> trace example_services (shortener True temporary_dto (Some other_user)) =
       [Settled (Call_isSafeUrl ''https://example.com/page''),
        Settled (Call_createShortenedUrl (temporary_dto\<lparr>dto_password := None\<rparr>))]"
proof (intro conjI)
  show "dto_temporary temporary_dto = Some True"
    by (simp add: temporary_dto_def)
  show "dto_password temporary_dto = Some ''secret''"
    by (simp add: temporary_dto_def)
  show "trace example_services (bulk True [temporary_dto] (Some other_user)) =
       [Settled (Call_isSafeUrl ''https://example.com/page''),
        Logged_info ''User u2 is creating a bulk-shortened url for 1 urls'',
        Settled (Call_createUsersShortenedUrl other_user temporary_dto)]"
    by (simp add: trace_bulk temporary_dto_def)
  show "outcome example_services (bulk True [temporary_dto] (Some other_user)) = Inr [''rand01'']"
    by (simp add: outcome_bulk temporary_dto_def)
  show "trace example_services (shortener True temporary_dto (Some other_user)) =
       [Settled (Call_isSafeUrl ''https://example.com/page''),
        Settled (Call_createShortenedUrl (temporary_dto\<lparr>dto_password := None\<rparr>))]"
    by (simp add: shortener_def shortener_key_def shortener_temporary_def truthy_bool_def
          temporary_dto_def)
qed

text \<open>
  C10. For every list of requests, \<open>bulk\<close> awaits the safe-URL check of each url (when the
  check is enabled) and, for a verified user, \<open>createUsersShortenedUrl\<close> on each request
  exactly as submitted; it never awaits the key-availability check, the creation of a
  temporary link, the password hashing or the quota check. \<open>shortener\<close> makes all four, so
  the two paths disagree: on a taken key and on an exhausted quota \<open>shortener\<close> refuses
  where \<open>bulk\<close> creates, \<open>shortener\<close> stores the hash of a password where \<open>bulk\<close> passes the
  password on as it is, and \<open>shortener\<close> creates a temporary link without its password for
  an anonymous caller where \<open>bulk\<close> refuses.
\<close>

theorem bulk_omits_checks_of_shortener:
  "trace env (bulk enable dtos req_user) =
     (if enable then map (\<lambda>d. Settled (Call_isSafeUrl (dto_url d))) dtos else [])
     @ (if enable \<and> \<not> list_all (\<lambda>d. isSafeUrl env (dto_url d)) dtos then []
        else case req_user of
               None \<Rightarrow> []
             | Some user \<Rightarrow>
                 if \<not> user_verified user then []
                 else Logged_info (''User '' @ user_id user
                                     @ '' is creating a bulk-shortened url for ''
                                     @ show_nat (length dtos) @ '' urls'')
                        # map (\<lambda>d. Settled (Call_createUsersShortenedUrl user d)) dtos)
   \<and> filter is_single_only (trace env (bulk enable dtos req_user)) = []
   \<and> outcome example_services (shortener True taken_key_dto (Some other_user)) =
       Inl (BadRequestException ''This short link already exists'')
   \<and> outcome example_services (bulk True [taken_key_dto] (Some other_user)) = Inr [''abc1'']
   \<and> outcome example_services (shortener True example_dto (Some example_user)) =
       Inl (BadRequestException ''You have reached your link creation limit'')
   \<and> outcome example_services (bulk True [example_dto] (Some example_user)) = Inr [''rand01'']
   \<and> trace example_services (shortener True password_dto (Some other_user)) =
       [Settled (Call_isSafeUrl ''https://example.com/page''),
        Settled (Call_hashPassword ''secret''),
        Settled (Call_isEligibleToCreateLink ''u2''),
        Logged_info ''User u2 is creating a shortened url for https://example.com/page'',
        Settled (Call_createUsersShortenedUrl other_user
                   (password_dto\<lparr>dto_password := Some ''hash:secret''\<rparr>))]
   \<and> trace example_services (bulk True [password_dto] (Some other_user)) =
       [Settled (Call_isSafeUrl ''https://example.com/page''),
        Logged_info ''User u2 is creating a bulk-shortened url for 1 urls'',
        Settled (Call_createUsersShortenedUrl other_user password_dto)]
   \<and> outcome example_services (shortener True temporary_dto None) = Inr ''rand01''
   \<and> outcome example_services (bulk True [temporary_dto] None) =
       Inl (BadRequestException ''You must be verified in to create a shortened url'')"
  by (intro conjI)
     (rule trace_bulk bulk_no_single_only shortener_taken_key bulk_taken_key shortener_quota
        bulk_quota shortener_hashes bulk_does_not_hash bulk_temporary_anonymous
        conjunct2 [OF shortener_temporary_anonymous])+

section \<open>Properties of key validation\<close>

lemma dto_key_valid_length:
  "dto_key_valid (Some k) = (4 \<le> length k \<and> length k \<le> 20)"
  by (simp add: dto_key_valid_def)

lemma schema_key_valid_format:
  "schema_key_valid (Some k) = (k = [] \<or> key_format_ok k)"
  by (auto simp: schema_key_valid_def key_format_ok_def)

lemma key_format_ok_dto_key_valid:
  "key_format_ok k \<Longrightarrow> dto_key_valid (Some k)"
  by (simp add: key_format_ok_def dto_key_valid_def)

text \<open>
  C5, at the input where the code departs from it. The key \<open>a/b?_c!\<close> has seven
  characters, four of them outside \<open>[A-Za-z0-9-]\<close>. The validation of \<open>ShortenerDto\<close>
  accepts it, although it does not have the format and the dashboard's schema rejects it;
  \<open>shortener\<close> then checks its availability and creates the link under that key.
\<close>

theorem dto_key_accepts_other_characters:
  "dto_key_valid (dto_key odd_key_dto)
   \<and> \<not> key_format_ok ''a/b?_c!''
   \<and> \<not> schema_key_valid (dto_key odd_key_dto)
   \<and> trace example_services (shortener True odd_key_dto (Some other_user)) =
       [Settled (Call_isSafeUrl ''https://example.com/page''),
        Settled (Call_isKeyAvailable ''a/b?_c!''),
        Settled (Call_isEligibleToCreateLink ''u2''),
        Logged_info ''User u2 is creating a shortened url for https://example.com/page'',
        Settled (Call_createUsersShortenedUrl other_user odd_key_dto)]
   \<and> outcome example_services (shortener True odd_key_dto (Some other_user)) = Inr ''a/b?_c!''"
proof (intro conjI)
  show "dto_key_valid (dto_key odd_key_dto)"
    by (simp add: odd_key_dto_def dto_key_valid_def)
  show "\<not> key_format_ok ''a/b?_c!''"
    by (simp add: key_format_ok_def key_char_def)
  show "\<not> schema_key_valid (dto_key odd_key_dto)"
    by (simp add: odd_key_dto_def schema_key_valid_def key_char_def)
  show "trace example_services (shortener True odd_key_dto (Some other_user)) =
       [Settled (Call_isSafeUrl ''https://example.com/page''),
        Settled (Call_isKeyAvailable ''a/b?_c!''),
        Settled (Call_isEligibleToCreateLink ''u2''),
        Logged_info ''User u2 is creating a shortened url for https://example.com/page'',
        Settled (Call_createUsersShortenedUrl other_user odd_key_dto)]"
    by (simp add: shortener_def shortener_key_def shortener_temporary_def shortener_verified_def
          shortener_eligible_def truthy_bool_def odd_key_dto_def)
  show "outcome example_services (shortener True odd_key_dto (Some other_user)) = Inr ''a/b?_c!''"
    by (simp add: shortener_def shortener_key_def shortener_temporary_def shortener_verified_def
          shortener_eligible_def truthy_bool_def odd_key_dto_def)
qed

section \<open>Properties of the analytics queries\<close>

lemma findUnique_None:
  "(findUnique table k uid = None) =
     (\<forall>l \<in> set table. \<not> (link_key l = k \<and> link_userId l = Some uid))"
  by (auto simp: findUnique_def find_None_iff)

lemma findUnique_Some:
  assumes "findUnique table k uid = Some l"
  shows "l \<in> set table \<and> link_key l = k \<and> link_userId l = Some uid"
proof -
  from assms obtain i where "i < length table" and "l = table ! i"
    and "link_key (table ! i) = k \<and> link_userId (table ! i) = Some uid"
    by (auto simp: findUnique_def find_Some_iff)
  then show ?thesis by simp
qed

lemma outcome_getAnalytics:
  "outcome env (getAnalytics key days user) =
     (case findUnique (link_table env) key (user_id user) of
        None \<Rightarrow> Inl (NotFoundException ''Link not found'')
      | Some l \<Rightarrow>
          Inr \<lparr>an_url = link_url l,
               an_clicksOverTime = getClicksOverTime env (link_id l) days\<rparr>)"
  by (simp add: getAnalytics_def findLink_def split: option.split)

lemma trace_getAnalytics:
  "trace env (getAnalytics key days user) =
     Settled (Call_findUnique key (user_id user))
       # (case findUnique (link_table env) key (user_id user) of
            None \<Rightarrow> []
          | Some l \<Rightarrow> [Settled (Call_getClicksOverTime (link_id l) days)])"
  by (simp add: getAnalytics_def findLink_def split: option.split)

lemma outcome_getGroupedData:
  "outcome env (getGroupedData key uid days field inc) =
     (case findUnique (link_table env) key uid of
        None \<Rightarrow> Inl (NotFoundException ''Link not found'')
      | Some l \<Rightarrow>
          Inr \<lparr>gr_url = link_url l,
               gr_data = getGroupedByField env (link_id l) field days inc\<rparr>)"
  by (simp add: getGroupedData_def findLink_def split: option.split)

lemma trace_getGroupedData:
  "trace env (getGroupedData key uid days field inc) =
     Settled (Call_findUnique key uid)
       # (case findUnique (link_table env) key uid of
            None \<Rightarrow> []
          | Some l \<Rightarrow> [Settled (Call_getGroupedByField (link_id l) field days inc)])"
  by (simp add: getGroupedData_def findLink_def split: option.split)

lemma grouped_handler_getGroupedData:
  "grouped_handler route key days user =
     getGroupedData key (user_id user) days
       (case route of
          Devices \<Rightarrow> ''device'' | Os \<Rightarrow> ''os'' | Browsers \<Rightarrow> ''browser''
        | Countries \<Rightarrow> ''country'' | Regions \<Rightarrow> ''region'' | Cities \<Rightarrow> ''city'')
       (case route of
          Devices \<Rightarrow> None | Os \<Rightarrow> None | Browsers \<Rightarrow> None
        | Countries \<Rightarrow> None | Regions \<Rightarrow> None | Cities \<Rightarrow> Some [(''country'', True)])"
  by (cases route)
     (simp_all add: getDevices_def getOs_def getBrowsers_def getCountries_def getRegions_def
        getCities_def)

lemma example_table_lookup [simp]:
  "findUnique (link_table example_services) ''abc1'' ''u1'' = Some example_link"
  "findUnique (link_table example_services) ''old1'' ''u1'' = None"
  by (simp_all add: findUnique_def example_services_def example_table_def example_link_def
        protected_link_def expired_link_def)

lemma group_of_city_country:
  "group_of ''city'' (Some [(''country'', True)]) f =
     Some (fact_city f, [(''country'', fact_country f)])"
  by (simp add: group_of_def dimension_value_def included_names_def included_values_def)

lemma group_of_no_include:
  assumes "group_of field None f = Some g"
  shows "snd g = []"
  using assms
  by (auto simp: group_of_def included_names_def included_values_def split: option.splits)

lemma in_set_map_filter:
  assumes "y \<in> set (List.map_filter g xs)"
  shows "\<exists>x \<in> set xs. g x = Some y"
  using assms by (induction xs) (auto split: option.splits)

lemma spec_rows_from_facts:
  assumes "row \<in> set (spec_getGroupedByField facts now linkId field days inc)"
  shows "\<exists>f \<in> set facts. fact_link f = linkId \<and> in_window now days f
           \<and> group_of field inc f = Some (row_field row, row_included row)
           \<and> 0 < row_count row"
proof -
  let ?sel = "selected_facts facts now linkId days"
  from assms obtain g where g: "g \<in> set (List.map_filter (group_of field inc) ?sel)"
    and row: "row = \<lparr>row_field = fst g, row_included = snd g,
                     row_count = length (filter (\<lambda>f. group_of field inc f = Some g) ?sel)\<rparr>"
    by (auto simp: spec_getGroupedByField_def)
  from g obtain f where f: "f \<in> set ?sel" and gf: "group_of field inc f = Some g"
    using in_set_map_filter by fastforce
  from f have mem: "f \<in> set facts" and own: "fact_link f = linkId"
    and win: "in_window now days f"
    by (simp_all add: selected_facts_def)
  from f gf have "f \<in> set (filter (\<lambda>f. group_of field inc f = Some g) ?sel)"
    by simp
  then have pos: "0 < length (filter (\<lambda>f. group_of field inc f = Some g) ?sel)"
    by (rule length_pos_if_in_set)
  have "group_of field inc f = Some (row_field row, row_included row)"
    by (simp add: row gf)
  moreover have "0 < row_count row"
    using pos by (simp add: row)
  ultimately show ?thesis
    using mem own win by blast
qed

lemma example_facts_selected:
  "selected_facts example_facts 5000 ''L1'' 7 = [fact_berlin1, fact_paris, fact_berlin2]"
  by (simp add: selected_facts_def example_facts_def in_window_def fact_berlin1_def
        fact_paris_def fact_berlin2_def fact_other_def)

lemma example_city_rows:
  "spec_getGroupedByField example_facts 5000 ''L1'' ''city'' 7 (Some [(''country'', True)]) =
     [\<lparr>row_field = ''Paris'', row_included = [(''country'', ''FR'')], row_count = 1\<rparr>,
      \<lparr>row_field = ''Berlin'', row_included = [(''country'', ''DE'')], row_count = 2\<rparr>]"
  by (simp add: spec_getGroupedByField_def example_facts_selected group_of_city_country
        List.map_filter_simps fact_berlin1_def fact_paris_def fact_berlin2_def)

lemma analytics_services_simps [simp]:
  "getGroupedByField analytics_services = spec_getGroupedByField example_facts 5000"
  "findUnique (link_table analytics_services) ''abc1'' ''u1'' = Some example_link"
  by (simp_all add: analytics_services_def)

text \<open>
  C8. The six grouped routes, and only they, query \<open>getGroupedByField\<close>, each for the link
  that \<open>findLink\<close> found and for its own dimension: device, os, browser, country, region,
  city. The \<open>include\<close> argument is \<open>{country: true}\<close> for the city route and absent for the
  other five; the response carries the rows the service returns for these arguments. With
  the service as the specification describes it, every row the city route returns carries
  the city and the country of a click fact in the window, and no row of another route
  carries an included value.
\<close>

theorem grouped_routes_dimensions:
  "trace env (grouped_handler route key days user) =
     Settled (Call_findUnique key (user_id user))
       # (case findUnique (link_table env) key (user_id user) of
            None \<Rightarrow> []
          | Some l \<Rightarrow>
              [Settled (Call_getGroupedByField (link_id l)
                 (case route of
                    Devices \<Rightarrow> ''device'' | Os \<Rightarrow> ''os'' | Browsers \<Rightarrow> ''browser''
                  | Countries \<Rightarrow> ''country'' | Regions \<Rightarrow> ''region'' | Cities \<Rightarrow> ''city'')
                 days
                 (case route of
                    Devices \<Rightarrow> None | Os \<Rightarrow> None | Browsers \<Rightarrow> None
                  | Countries \<Rightarrow> None | Regions \<Rightarrow> None
                  | Cities \<Rightarrow> Some [(''country'', True)]))])
   \<and> outcome env (grouped_handler route key days user) =
       (case findUnique (link_table env) key (user_id user) of
          None \<Rightarrow> Inl (NotFoundException ''Link not found'')
        | Some l \<Rightarrow>
            Inr \<lparr>gr_url = link_url l,
                 gr_data = getGroupedByField env (link_id l)
                   (case route of
                      Devices \<Rightarrow> ''device'' | Os \<Rightarrow> ''os'' | Browsers \<Rightarrow> ''browser''
                    | Countries \<Rightarrow> ''country'' | Regions \<Rightarrow> ''region'' | Cities \<Rightarrow> ''city'')
                   days
                   (case route of
                      Devices \<Rightarrow> None | Os \<Rightarrow> None | Browsers \<Rightarrow> None
                    | Countries \<Rightarrow> None | Regions \<Rightarrow> None
                    | Cities \<Rightarrow> Some [(''country'', True)])\<rparr>)
   \<and> (UNIV :: grouped_route set) = {Devices, Os, Browsers, Countries, Regions, Cities}
   \<and> (getGroupedByField env = spec_getGroupedByField facts now \<longrightarrow>
        (\<forall>r. outcome env (grouped_handler Cities key days user) = Inr r \<longrightarrow>
           (\<forall>row \<in> set (gr_data r). \<exists>f \<in> set facts.
              in_window now days f
              \<and> row_field row = fact_city f
              \<and> row_included row = [(''country'', fact_country f)]
              \<and> 0 < row_count row)))
   \<and> (getGroupedByField env = spec_getGroupedByField facts now \<longrightarrow>
        (\<forall>r. route \<noteq> Cities \<longrightarrow> outcome env (grouped_handler route key days user) = Inr r \<longrightarrow>
           (\<forall>row \<in> set (gr_data r). row_included row = [])))"
proof (intro conjI)
  show "(UNIV :: grouped_route set) = {Devices, Os, Browsers, Countries, Regions, Cities}"
  proof
    show "(UNIV :: grouped_route set) \<subseteq> {Devices, Os, Browsers, Countries, Regions, Cities}"
    proof
      fix r :: grouped_route
      show "r \<in> {Devices, Os, Browsers, Countries, Regions, Cities}"
        by (cases r) simp_all
    qed
  qed simp
next
  show "getGroupedByField env = spec_getGroupedByField facts now \<longrightarrow>
        (\<forall>r. outcome env (grouped_handler Cities key days user) = Inr r \<longrightarrow>
           (\<forall>row \<in> set (gr_data r). \<exists>f \<in> set facts.
              in_window now days f
              \<and> row_field row = fact_city f
              \<and> row_included row = [(''country'', fact_country f)]
              \<and> 0 < row_count row))"
  proof (intro impI allI ballI)
    fix r row
    assume svc: "getGroupedByField env = spec_getGroupedByField facts now"
      and ok: "outcome env (grouped_handler Cities key days user) = Inr r"
      and row: "row \<in> set (gr_data r)"
    have "outcome env (getGroupedData key (user_id user) days ''city''
                         (Some [(''country'', True)])) = Inr r"
      using ok by (simp add: getCities_def)
    then obtain l where "findUnique (link_table env) key (user_id user) = Some l"
      and r: "r = \<lparr>gr_url = link_url l,
                   gr_data = getGroupedByField env (link_id l) ''city'' days
                               (Some [(''country'', True)])\<rparr>"
      by (cases "findUnique (link_table env) key (user_id user)")
         (auto simp add: outcome_getGroupedData)
    from row r svc
    have "row \<in> set (spec_getGroupedByField facts now (link_id l) ''city'' days
                       (Some [(''country'', True)]))"
      by simp
    from spec_rows_from_facts [OF this]
    obtain f where "f \<in> set facts" and "in_window now days f"
      and g: "group_of ''city'' (Some [(''country'', True)]) f
                = Some (row_field row, row_included row)"
      and "0 < row_count row"
      by blast
    moreover from g have "row_field row = fact_city f"
      and "row_included row = [(''country'', fact_country f)]"
      by (simp_all add: group_of_city_country)
    ultimately show "\<exists>f \<in> set facts.
              in_window now days f
              \<and> row_field row = fact_city f
              \<and> row_included row = [(''country'', fact_country f)]
              \<and> 0 < row_count row"
      by blast
  qed
next
  show "getGroupedByField env = spec_getGroupedByField facts now \<longrightarrow>
        (\<forall>r. route \<noteq> Cities \<longrightarrow> outcome env (grouped_handler route key days user) = Inr r \<longrightarrow>
           (\<forall>row \<in> set (gr_data r). row_included row = []))"
  proof (intro impI allI ballI)
    fix r row
    assume svc: "getGroupedByField env = spec_getGroupedByField facts now"
      and other: "route \<noteq> Cities"
      and ok: "outcome env (grouped_handler route key days user) = Inr r"
      and row: "row \<in> set (gr_data r)"
    from other have inc: "(case route of
                      Devices \<Rightarrow> None | Os \<Rightarrow> None | Browsers \<Rightarrow> None
                    | Countries \<Rightarrow> None | Regions \<Rightarrow> None
                    | Cities \<Rightarrow> Some [(''country'', True)]) = None"
      by (cases route) simp_all
    have "\<exists>field. outcome env (getGroupedData key (user_id user) days field None) = Inr r"
      using ok unfolding grouped_handler_getGroupedData inc by (rule exI)
    then obtain l field where "findUnique (link_table env) key (user_id user) = Some l"
      and r: "r = \<lparr>gr_url = link_url l,
                   gr_data = getGroupedByField env (link_id l) field days None\<rparr>"
      by (cases "findUnique (link_table env) key (user_id user)")
         (auto simp add: outcome_getGroupedData)
    from row r svc
    have "row \<in> set (spec_getGroupedByField facts now (link_id l) field days None)"
      by simp
    from spec_rows_from_facts [OF this]
    obtain f where "group_of field None f = Some (row_field row, row_included row)"
      by blast
    from group_of_no_include [OF this] show "row_included row = []"
      by simp
  qed
qed (simp_all only: grouped_handler_getGroupedData trace_getGroupedData outcome_getGroupedData)

theorem grouped_routes_dimensions_witness:
  "trace analytics_services (grouped_handler Cities ''abc1'' 7 example_user) =
     [Settled (Call_findUnique ''abc1'' ''u1''),
      Settled (Call_getGroupedByField ''L1'' ''city'' 7 (Some [(''country'', True)]))]
   \<and> trace analytics_services (grouped_handler Countries ''abc1'' 7 example_user) =
     [Settled (Call_findUnique ''abc1'' ''u1''),
      Settled (Call_getGroupedByField ''L1'' ''country'' 7 None)]
   \<and> outcome analytics_services (grouped_handler Cities ''abc1'' 7 example_user) =
       Inr \<lparr>gr_url = ''https://example.com'',
            gr_data =
              [\<lparr>row_field = ''Paris'', row_included = [(''country'', ''FR'')], row_count = 1\<rparr>,
               \<lparr>row_field = ''Berlin'', row_included = [(''country'', ''DE'')],
                row_count = 2\<rparr>]\<rparr>
   \<and> (\<exists>f \<in> set example_facts.
         ''Paris'' = fact_city f \<and> [(''country'', ''FR'')] = [(''country'', fact_country f)])
   \<and> (\<exists>f \<in> set example_facts.
         ''Berlin'' = fact_city f \<and> [(''country'', ''DE'')] = [(''country'', fact_country f)])"
proof -
  have i: "link_id example_link = ''L1''" and u: "link_url example_link = ''https://example.com''"
    by (simp_all add: example_link_def)
  have svc: "getGroupedByField analytics_services = spec_getGroupedByField example_facts 5000"
    by simp
  note w = grouped_routes_dimensions
             [of analytics_services Cities "''abc1''" 7 example_user example_facts 5000]
  note w' = grouped_routes_dimensions
             [of analytics_services Countries "''abc1''" 7 example_user example_facts 5000]
  from w have a: "trace analytics_services (grouped_handler Cities ''abc1'' 7 example_user) =
     [Settled (Call_findUnique ''abc1'' ''u1''),
      Settled (Call_getGroupedByField ''L1'' ''city'' 7 (Some [(''country'', True)]))]"
    by (simp add: i)
  from w' have b: "trace analytics_services (grouped_handler Countries ''abc1'' 7 example_user) =
     [Settled (Call_findUnique ''abc1'' ''u1''),
      Settled (Call_getGroupedByField ''L1'' ''country'' 7 None)]"
    by (simp add: i)
  from w have o: "outcome analytics_services (grouped_handler Cities ''abc1'' 7 example_user) =
       Inr \<lparr>gr_url = ''https://example.com'',
            gr_data =
              [\<lparr>row_field = ''Paris'', row_included = [(''country'', ''FR'')], row_count = 1\<rparr>,
               \<lparr>row_field = ''Berlin'', row_included = [(''country'', ''DE'')],
                row_count = 2\<rparr>]\<rparr>"
    by (simp add: i u example_city_rows)
  note rows = conjunct1 [OF conjunct2 [OF conjunct2 [OF conjunct2 [OF w]]],
                rule_format, OF svc o]
  have c: "\<exists>f \<in> set example_facts.
         ''Paris'' = fact_city f \<and> [(''country'', ''FR'')] = [(''country'', fact_country f)]"
    using rows [of "\<lparr>row_field = ''Paris'', row_included = [(''country'', ''FR'')],
                     row_count = 1\<rparr>"]
    by auto
  have d: "\<exists>f \<in> set example_facts.
         ''Berlin'' = fact_city f \<and> [(''country'', ''DE'')] = [(''country'', fact_country f)]"
    using rows [of "\<lparr>row_field = ''Berlin'', row_included = [(''country'', ''DE'')],
                     row_count = 2\<rparr>"]
    by auto
  from a b o c d show ?thesis
    by (intro conjI)
qed

text \<open>
  C9. If no stored link has the requested key together with the requesting user as its
  owner, the clicks-over-time query and each of the six grouped queries throw
  \<open>NotFoundException\<close> after the lookup alone: no aggregation is awaited. Hence whenever
  one of these queries returns data, the data is that of a stored link with the requested
  key whose owner is the requesting user.
\<close>

theorem analytics_requires_owned_link:
  "((\<forall>l \<in> set (link_table env). \<not> (link_key l = key \<and> link_userId l = Some (user_id user)))
      \<longrightarrow> outcome env (getAnalytics key days user) = Inl (NotFoundException ''Link not found'')
        \<and> trace env (getAnalytics key days user) = [Settled (Call_findUnique key (user_id user))]
        \<and> outcome env (grouped_handler route key days user)
            = Inl (NotFoundException ''Link not found'')
        \<and> trace env (grouped_handler route key days user)
            = [Settled (Call_findUnique key (user_id user))])
   \<and> (\<forall>r. outcome env (getAnalytics key days user) = Inr r
          \<longrightarrow> (\<exists>l \<in> set (link_table env).
                 link_key l = key \<and> link_userId l = Some (user_id user)
                 \<and> r = \<lparr>an_url = link_url l,
                        an_clicksOverTime = getClicksOverTime env (link_id l) days\<rparr>))
   \<and> (\<forall>r. outcome env (grouped_handler route key days user) = Inr r
          \<longrightarrow> (\<exists>l \<in> set (link_table env).
                 link_key l = key \<and> link_userId l = Some (user_id user)
                 \<and> gr_url r = link_url l
                 \<and> (\<exists>field inc. gr_data r = getGroupedByField env (link_id l) field days inc)))"
proof (intro conjI impI allI)
  assume none: "\<forall>l \<in> set (link_table env).
                  \<not> (link_key l = key \<and> link_userId l = Some (user_id user))"
  then have f: "findUnique (link_table env) key (user_id user) = None"
    by (simp only: findUnique_None)
  show "outcome env (getAnalytics key days user) = Inl (NotFoundException ''Link not found'')"
    by (simp add: outcome_getAnalytics f)
  show "trace env (getAnalytics key days user) = [Settled (Call_findUnique key (user_id user))]"
    by (simp add: trace_getAnalytics f)
  show "outcome env (grouped_handler route key days user)
          = Inl (NotFoundException ''Link not found'')"
    by (simp add: grouped_handler_getGroupedData outcome_getGroupedData f)
  show "trace env (grouped_handler route key days user)
          = [Settled (Call_findUnique key (user_id user))]"
    by (simp add: grouped_handler_getGroupedData trace_getGroupedData f)
next
  fix r
  assume ok: "outcome env (getAnalytics key days user) = Inr r"
  then obtain l where l: "findUnique (link_table env) key (user_id user) = Some l"
    and r: "r = \<lparr>an_url = link_url l,
                 an_clicksOverTime = getClicksOverTime env (link_id l) days\<rparr>"
    by (cases "findUnique (link_table env) key (user_id user)")
       (simp_all add: outcome_getAnalytics)
  from findUnique_Some [OF l] r
  show "\<exists>l \<in> set (link_table env).
          link_key l = key \<and> link_userId l = Some (user_id user)
          \<and> r = \<lparr>an_url = link_url l,
                 an_clicksOverTime = getClicksOverTime env (link_id l) days\<rparr>"
    by blast
next
  fix r
  assume ok: "outcome env (grouped_handler route key days user) = Inr r"
  then obtain l field inc where l: "findUnique (link_table env) key (user_id user) = Some l"
    and r: "r = \<lparr>gr_url = link_url l,
                 gr_data = getGroupedByField env (link_id l) field days inc\<rparr>"
    by (cases "findUnique (link_table env) key (user_id user)")
       (auto simp add: grouped_handler_getGroupedData outcome_getGroupedData)
  from r have "gr_url r = link_url l"
    and "\<exists>field inc. gr_data r = getGroupedByField env (link_id l) field days inc"
    by auto
  with findUnique_Some [OF l]
  show "\<exists>l \<in> set (link_table env).
          link_key l = key \<and> link_userId l = Some (user_id user)
          \<and> gr_url r = link_url l
          \<and> (\<exists>field inc. gr_data r = getGroupedByField env (link_id l) field days inc)"
    by blast
qed

theorem analytics_requires_owned_link_witness:
  "outcome example_services (getAnalytics ''old1'' 7 example_user)
     = Inl (NotFoundException ''Link not found'')
   \<and> trace example_services (getAnalytics ''old1'' 7 example_user)
       = [Settled (Call_findUnique ''old1'' ''u1'')]
   \<and> outcome example_services (grouped_handler Devices ''old1'' 7 example_user)
       = Inl (NotFoundException ''Link not found'')
   \<and> outcome example_services (getAnalytics ''abc1'' 7 example_user)
       = Inr \<lparr>an_url = ''https://example.com'', an_clicksOverTime = [(''2024-01-01'', 1)]\<rparr>
   \<and> (\<exists>l \<in> set (link_table example_services).
         link_key l = ''abc1'' \<and> link_userId l = Some ''u1''
         \<and> link_url l = ''https://example.com'')"
proof -
  have none: "\<forall>l \<in> set (link_table example_services).
                \<not> (link_key l = ''old1'' \<and> link_userId l = Some (user_id example_user))"
    by (simp add: example_services_def example_table_def example_link_def protected_link_def
          expired_link_def)
  have c: "getClicksOverTime example_services = (\<lambda>i n. [(''2024-01-01'', 1)])"
    by (simp add: example_services_def)
  have ok: "outcome example_services (getAnalytics ''abc1'' 7 example_user)
       = Inr \<lparr>an_url = ''https://example.com'', an_clicksOverTime = [(''2024-01-01'', 1)]\<rparr>"
    by (simp add: outcome_getAnalytics c example_link_def)
  from analytics_requires_owned_link
         [of example_services "''old1''" example_user 7 Devices] none
  have a: "outcome example_services (getAnalytics ''old1'' 7 example_user)
             = Inl (NotFoundException ''Link not found'')
         \<and> trace example_services (getAnalytics ''old1'' 7 example_user)
             = [Settled (Call_findUnique ''old1'' ''u1'')]
         \<and> outcome example_services (grouped_handler Devices ''old1'' 7 example_user)
             = Inl (NotFoundException ''Link not found'')"
    by simp
  from analytics_requires_owned_link
         [of example_services "''abc1''" example_user 7 Devices] ok
  have b: "\<exists>l \<in> set (link_table example_services).
         link_key l = ''abc1'' \<and> link_userId l = Some ''u1''
         \<and> link_url l = ''https://example.com''"
    by auto
  from a ok b show ?thesis by simp
qed

end
